theory Spec2Isabelle
  imports Complex_Main
begin

section \<open>Data model\<close>

text \<open>
  The server keeps six tables (models/Player.ts, Stats.ts, Task.ts, TaskLog.ts,
  Penalty.ts, Narrative.ts).  A row is a record, a table is the list of its rows, and the
  database is the record of the tables.  Identifiers are naturals, dates are integers
  (milliseconds since the epoch), nullable columns are options.  An INTEGER column holds
  an integer of PostgreSQL's 32-bit range (\<open>int32\<close>): a statement that writes a value
  outside it fails and writes nothing.  A JavaScript number is a binary64 floating point
  value (section JavaScript numbers); where the code computes with integers that stay
  below \<open>2^53\<close>, the model computes with integers.
\<close>

datatype Rank = E | D | C | B | A | S | SS

datatype Difficulty = easy | medium | hard | extreme

datatype StatType = Physical | Intelligence | Discipline | Charisma | Confidence | Creativity

text \<open>
  The \<open>type\<close> column of a task: the model's enum and the value \<open>weekly\<close> that
  migration 20240102000000 adds to the column and the quest generator accepts.
\<close>

datatype TaskType = daily | weekly | dungeon | boss

datatype TaskStatus = pending | completed | failed | missed

datatype PenaltyReason = missed_task | rank_lock | xp_loss

record Player =
  player_id :: nat
  rank :: Rank
  level :: int
  totalXp :: int

text \<open>The \<open>stats\<close> table has one row per player: \<open>playerId\<close> is declared unique.\<close>

record Stats =
  stats_playerId :: nat
  physical :: int
  intelligence :: int
  discipline :: int
  charisma :: int
  confidence :: int
  creativity :: int

record Task =
  task_id :: nat
  task_type :: TaskType
  difficulty :: Difficulty
  description :: string
  targetStat :: StatType
  xpReward :: int
  deadline :: int

record TaskLog =
  log_id :: nat
  log_taskId :: nat
  log_playerId :: nat
  status :: TaskStatus
  evidence :: "string option"
  aiVerdict :: "string option"
  log_createdAt :: int

record Penalty =
  penalty_id :: nat
  penalty_playerId :: nat
  reason :: PenaltyReason
  severity :: int
  expiresAt :: "int option"
  penalty_createdAt :: int

record Narrative =
  narrative_id :: nat
  narrative_taskLogId :: nat
  narrative_text :: string

text \<open>Every thrown \<open>Error\<close> of the services is a value; one constructor per message.\<close>

datatype error =
    LevelTooLow \<comment> \<open>Level must be >= 1\<close>
  | InvalidXpAmount int \<comment> \<open>Invalid XP amount: totalXp\<close>
  | PlayerNotFound nat \<comment> \<open>Player not found: playerId\<close>
  | StatsNotFound nat \<comment> \<open>Stats not found for player playerId\<close>
  | TaskNotFound nat \<comment> \<open>Task not found: taskId\<close>
  | TaskDeadlinePassed \<comment> \<open>Task deadline has passed\<close>
  | RowMissing \<comment> \<open>reload of an instance whose row is gone\<close>
  | ForeignKeyViolation \<comment> \<open>insert of a row whose \<open>references\<close> column names no row\<close>
  | NotAnObject \<comment> \<open>Judge response must be an object\<close>
  | MissingVerdict \<comment> \<open>Judge response must include "verdict" field\<close>
  | InvalidVerdict \<comment> \<open>Verdict must be "success" or "fail"\<close>
  | MissingXp \<comment> \<open>Judge response must include "xp" field\<close>
  | InvalidXp \<comment> \<open>XP must be a non-negative integer\<close>
  | MissingStatChanges \<comment> \<open>Judge response must include "statChanges" field\<close>
  | StatChangesNotObject \<comment> \<open>statChanges must be an object\<close>
  | FailWithXp \<comment> \<open>If verdict is "fail", xp must be 0\<close>
  | FailWithStatChanges \<comment> \<open>If verdict is "fail", statChanges must be empty\<close>
  | SuccessWithoutXp \<comment> \<open>If verdict is "success", xp must be greater than 0\<close>
  | InvalidStatName string \<comment> \<open>Invalid stat name: statName\<close>
  | StatChangeNotInteger string \<comment> \<open>Stat change for statName must be an integer\<close>
  | MissingComment \<comment> \<open>Judge response must include "comment" field\<close>
  | CommentNotString \<comment> \<open>Comment must be a string\<close>
  | OpenAICallFailed \<comment> \<open>Failed to call OpenAI API\<close>
  | NoResponseContent \<comment> \<open>No response content from OpenAI\<close>
  | JsonParseFailed \<comment> \<open>Failed to parse JSON response\<close>
  | TaskLogNotFound nat \<comment> \<open>TaskLog not found: taskLogId\<close>
  | TaskLogNotPending nat \<comment> \<open>TaskLog taskLogId is not pending\<close>
  | NoEvidence nat \<comment> \<open>TaskLog taskLogId has no evidence to judge\<close>
  | ValidationFailed \<comment> \<open>a model validator or a NOT NULL column rejects the row\<close>
  | IntegerOutOfRange \<comment> \<open>value out of range for type integer\<close>
  | QuestNotAnObject \<comment> \<open>Quest suggestion must be an object\<close>
  | QuestInvalidType \<comment> \<open>Invalid or missing type field\<close>
  | QuestInvalidDescription \<comment> \<open>Invalid or missing description field\<close>
  | QuestInvalidDifficulty \<comment> \<open>Invalid or missing difficulty field\<close>
  | QuestInvalidTargetStat \<comment> \<open>Invalid or missing targetStat field\<close>
  | NarrativeNotAnObject \<comment> \<open>Narrative response must be an object\<close>
  | NarrativeInvalid \<comment> \<open>Invalid or missing narrative field\<close>

record DB =
  players :: "Player list"
  stats :: "Stats list"
  tasks :: "Task list"
  taskLogs :: "TaskLog list"
  penalties :: "Penalty list"
  narratives :: "Narrative list"

text \<open>
  No service call passes a transaction, so every statement is committed as it runs: a
  service maps the database to its outcome (the thrown error or the returned value) and
  the database as the statements run so far have left it.
\<close>

type_synonym 'a io = "(error + 'a) \<times> DB"

text \<open>
  A day has 24 hours (no daylight saving shift), and the server's local time is UTC:
  \<open>setDate(getDate() + n)\<close> moves a date by \<open>n\<close> days, \<open>setHours(0, 0, 0, 0)\<close> and
  \<open>setHours(23, 59, 59, 999)\<close> give the first and the last millisecond of its day.
\<close>

definition day_ms :: int where
  "day_ms = 24 * 60 * 60 * 1000"

definition startOfDay :: "int \<Rightarrow> int" where
  "startOfDay now = now - now mod day_ms"

definition endOfDay :: "int \<Rightarrow> int" where
  "endOfDay now = startOfDay now + day_ms - 1"

text \<open>An auto-increment key: a number no row of the table carries.\<close>

definition fresh_id :: "nat list \<Rightarrow> nat" where
  "fresh_id ids = Suc (fold max ids 0)"

text \<open>The values of an INTEGER column.\<close>

definition int32 :: "int \<Rightarrow> bool" where
  "int32 n = (- 2147483648 \<le> n \<and> n \<le> 2147483647)"

section \<open>JavaScript numbers\<close>

text \<open>
  A number is a finite binary64 value, an infinity or NaN.  A finite number is the real
  it denotes (the sign of a zero is not kept: no operation of the services tells \<open>-0\<close>
  from \<open>0\<close>).
\<close>

datatype number = Finite real | PosInf | NegInf | NaN

text \<open>
  \<open>dbl x\<close> is the binary64 value nearest to the real \<open>x\<close>, a tie going to the even
  significand: \<open>x\<close> lies in the binade \<open>[2^e, 2^(e+1))\<close>, whose values are the multiples
  of \<open>2^(e-52)\<close>.  The exponent range is not bounded (no overflow to an infinity, no
  subnormal numbers): the sum of a 32-bit integer and a finite number stays finite, and
  is exact where it is subnormal.  \<open>is_double\<close> holds of the reals that are finite
  binary64 values.  A decimal literal of the source denotes \<open>dbl\<close> of its value.
\<close>

definition round_half_even :: "real \<Rightarrow> int" where
  "round_half_even y =
     (let f = \<lfloor>y\<rfloor>
      in if y - of_int f < 1 / 2 then f
         else if 1 / 2 < y - of_int f then f + 1
         else if even f then f else f + 1)"

definition dbl :: "real \<Rightarrow> real" where
  "dbl x =
     (if x = 0 then 0
      else let e = \<lfloor>log 2 \<bar>x\<bar>\<rfloor>; ulp = 2 powr (of_int e - 52)
           in ulp * of_int (round_half_even (x / ulp)))"

definition is_double :: "real \<Rightarrow> bool" where
  "is_double x =
     (\<exists>m e. x = of_int m * 2 powr of_int e \<and> \<bar>m\<bar> < 2 ^ 53 \<and> - 1074 \<le> e \<and> e \<le> 971)"

text \<open>\<open>a + b\<close>, \<open>Math.round\<close> (half up, exact), \<open>Math.min\<close> and \<open>Math.max\<close>.\<close>

fun js_add :: "number \<Rightarrow> number \<Rightarrow> number" where
  "js_add (Finite a) (Finite b) = Finite (dbl (a + b))"
| "js_add NaN b = NaN"
| "js_add a NaN = NaN"
| "js_add PosInf NegInf = NaN"
| "js_add NegInf PosInf = NaN"
| "js_add PosInf b = PosInf"
| "js_add a PosInf = PosInf"
| "js_add NegInf b = NegInf"
| "js_add a NegInf = NegInf"

fun Math_round :: "number \<Rightarrow> number" where
  "Math_round (Finite r) = Finite (of_int (round r))"
| "Math_round v = v"

fun Math_min :: "number \<Rightarrow> number \<Rightarrow> number" where
  "Math_min NaN b = NaN"
| "Math_min a NaN = NaN"
| "Math_min NegInf b = NegInf"
| "Math_min a NegInf = NegInf"
| "Math_min PosInf b = b"
| "Math_min a PosInf = a"
| "Math_min (Finite a) (Finite b) = Finite (min a b)"

fun Math_max :: "number \<Rightarrow> number \<Rightarrow> number" where
  "Math_max NaN b = NaN"
| "Math_max a NaN = NaN"
| "Math_max PosInf b = PosInf"
| "Math_max a PosInf = PosInf"
| "Math_max NegInf b = b"
| "Math_max a NegInf = a"
| "Math_max (Finite a) (Finite b) = Finite (max a b)"

section \<open>xp.service.ts\<close>

definition RANK_XP_THRESHOLDS :: "(Rank \<times> int \<times> int option) list" where
  "RANK_XP_THRESHOLDS =
     [(E, 0, Some 999),
      (D, 1000, Some 4999),
      (C, 5000, Some 14999),
      (B, 15000, Some 39999),
      (A, 40000, Some 99999),
      (S, 100000, Some 249999),
      (SS, 250000, None)]"

text \<open>
  \<open>Math.pow\<close> is the engine's: ECMAScript leaves its value implementation-approximated.
  The model takes it as a parameter of the XP service, any function whose value at the
  exponent 1.5 lies within the relative error \<open>2^-52\<close> of the power, for every base from
  1 on.  \<open>correctly_rounded_pow\<close> is the engine that returns the double nearest to the
  power.
\<close>

definition pow_accurate :: "(real \<Rightarrow> real \<Rightarrow> real) \<Rightarrow> bool" where
  "pow_accurate f = (\<forall>x. 1 \<le> x \<longrightarrow> \<bar>f x 1.5 - x powr 1.5\<bar> \<le> x powr 1.5 / 2 ^ 52)"

typedef pow_impl = "{f. pow_accurate f}"
  by (rule exI [of _ "(powr)"]) (simp add: pow_accurate_def)

definition Math_pow :: "pow_impl \<Rightarrow> real \<Rightarrow> real \<Rightarrow> real" where
  "Math_pow engine = Rep_pow_impl engine"

definition correctly_rounded_pow :: pow_impl where
  "correctly_rounded_pow = Abs_pow_impl (\<lambda>x y. dbl (x powr y))"

text \<open>
  \<open>Math.round(100 * Math.pow(level, 1.5))\<close>: the product is rounded to a double,
  \<open>Math.round\<close> rounds half up, as \<open>round\<close> does.  The level is an integer below
  \<open>2^53\<close>.
\<close>

definition calculateXpRequired :: "pow_impl \<Rightarrow> int \<Rightarrow> error + int" where
  "calculateXpRequired engine lvl =
     (if lvl < 1 then Inl LevelTooLow
      else Inr (round (dbl (100 * Math_pow engine (real_of_int lvl) 1.5))))"

text \<open>
  The \<open>while (true)\<close> loop of \<open>calculateLevel\<close>, started at level 1.  It ends for every
  engine and every XP total, the requirement of a level being at least the level: the
  termination proof follows the facts on doubles below.
\<close>

function calculateLevel_loop :: "pow_impl \<Rightarrow> int \<Rightarrow> int \<Rightarrow> error + int" where
  "calculateLevel_loop engine txp lvl =
     (case calculateXpRequired engine (lvl + 1) of
        Inl e \<Rightarrow> Inl e
      | Inr nextXpRequired \<Rightarrow>
          if txp < nextXpRequired then Inr lvl
          else calculateLevel_loop engine txp (lvl + 1))"
  by pat_completeness auto
definition calculateLevel :: "pow_impl \<Rightarrow> int \<Rightarrow> error + int" where
  "calculateLevel engine txp = calculateLevel_loop engine txp 1"

text \<open>
  \<open>calculateRank\<close>: negative XP is rank E; otherwise the first entry of the table, in
  its insertion order, whose interval holds the XP; no entry is the thrown error.
\<close>

definition calculateRank :: "int \<Rightarrow> error + Rank" where
  "calculateRank txp =
     (if txp < 0 then Inr E
      else case find (\<lambda>(r, mn, mx). txp \<ge> mn \<and> (case mx of None \<Rightarrow> True | Some m \<Rightarrow> txp \<le> m))
                  RANK_XP_THRESHOLDS of
             Some (r, mn, mx) \<Rightarrow> Inr r
           | None \<Rightarrow> Inl (InvalidXpAmount txp))"

text \<open>
  \<open>Model.findByPk\<close>, \<open>instance.update\<close> (an UPDATE by primary key) and
  \<open>instance.reload\<close>.  An update that sets \<open>level\<close> or \<open>totalXp\<close> to a value outside
  the INTEGER range throws and leaves the row.
\<close>

definition findPlayerByPk :: "nat \<Rightarrow> DB \<Rightarrow> Player option" where
  "findPlayerByPk playerId db = find (\<lambda>p. player_id p = playerId) (players db)"

definition updatePlayerRow :: "Player \<Rightarrow> DB \<Rightarrow> DB" where
  "updatePlayerRow p db =
     db\<lparr>players := map (\<lambda>q. if player_id q = player_id p then p else q) (players db)\<rparr>"

definition reloadPlayer :: "Player \<Rightarrow> DB \<Rightarrow> error + Player" where
  "reloadPlayer p db =
     (case findPlayerByPk (player_id p) db of None \<Rightarrow> Inl RowMissing | Some q \<Rightarrow> Inr q)"

definition recalculateLevelAndRank :: "pow_impl \<Rightarrow> Player \<Rightarrow> DB \<Rightarrow> Player io" where
  "recalculateLevelAndRank engine player db =
     (case calculateLevel engine (totalXp player) of
        Inl e \<Rightarrow> (Inl e, db)
      | Inr newLevel \<Rightarrow>
          (case calculateRank (totalXp player) of
             Inl e \<Rightarrow> (Inl e, db)
           | Inr newRank \<Rightarrow>
               if \<not> int32 newLevel then (Inl IntegerOutOfRange, db)
               else
                 let db' = updatePlayerRow (player\<lparr>level := newLevel, rank := newRank\<rparr>) db
                 in (reloadPlayer player db', db')))"

text \<open>
  \<open>addXp\<close>.  The amount is an integer (the validated XP of a verdict, or
  \<open>-Math.round(psi * 2)\<close>).  The sum \<open>player.totalXp + xpAmount\<close> of the code is a
  double: it is the exact sum whenever that lies in the INTEGER range, and lies outside
  the range whenever the exact sum does.
\<close>

definition addXp :: "pow_impl \<Rightarrow> nat \<Rightarrow> int \<Rightarrow> DB \<Rightarrow> Player io" where
  "addXp engine playerId xpAmount db =
     (if xpAmount = 0 then
        (case findPlayerByPk playerId db of
           None \<Rightarrow> (Inl (PlayerNotFound playerId), db)
         | Some player \<Rightarrow> (Inr player, db))
      else
        (case findPlayerByPk playerId db of
           None \<Rightarrow> (Inl (PlayerNotFound playerId), db)
         | Some player \<Rightarrow>
             let newTotalXp = totalXp player + xpAmount
             in if \<not> int32 newTotalXp then (Inl IntegerOutOfRange, db)
                else
                  let player' = player\<lparr>totalXp := newTotalXp\<rparr>
                  in recalculateLevelAndRank engine player' (updatePlayerRow player' db)))"

section \<open>stat.service.ts\<close>

text \<open>
  \<open>StatChanges\<close> has six optional numbers: a partial map from the stat to its delta.
  \<open>changes.s || 0\<close> reads an absent delta, a zero and NaN as 0.
\<close>

type_synonym StatChanges = "StatType \<Rightarrow> number option"

definition delta_or_0 :: "StatChanges \<Rightarrow> StatType \<Rightarrow> number" where
  "delta_or_0 changes s = (case changes s of None \<Rightarrow> Finite 0 | Some NaN \<Rightarrow> Finite 0 | Some d \<Rightarrow> d)"

definition clampStat :: "number \<Rightarrow> number" where
  "clampStat v = Math_max (Finite 0) (Math_min (Finite 100) (Math_round v))"

definition findStats :: "nat \<Rightarrow> DB \<Rightarrow> Stats option" where
  "findStats playerId db = find (\<lambda>s. stats_playerId s = playerId) (stats db)"

definition updateStatsRow :: "Stats \<Rightarrow> DB \<Rightarrow> DB" where
  "updateStatsRow st db =
     db\<lparr>stats := map (\<lambda>q. if stats_playerId q = stats_playerId st then st else q) (stats db)\<rparr>"

definition reloadStats :: "Stats \<Rightarrow> DB \<Rightarrow> error + Stats" where
  "reloadStats st db =
     (case findStats (stats_playerId st) db of None \<Rightarrow> Inl RowMissing | Some q \<Rightarrow> Inr q)"

text \<open>The value of one stat of a row, and the validator of the model (\<open>min: 0, max: 100\<close>).\<close>

fun stat_value :: "StatType \<Rightarrow> Stats \<Rightarrow> int" where
  "stat_value Physical st = physical st"
| "stat_value Intelligence st = intelligence st"
| "stat_value Discipline st = discipline st"
| "stat_value Charisma st = charisma st"
| "stat_value Confidence st = confidence st"
| "stat_value Creativity st = creativity st"

definition valid_stats :: "Stats \<Rightarrow> bool" where
  "valid_stats st =
     (0 \<le> physical st \<and> physical st \<le> 100 \<and> 0 \<le> intelligence st \<and> intelligence st \<le> 100
      \<and> 0 \<le> discipline st \<and> discipline st \<le> 100 \<and> 0 \<le> charisma st \<and> charisma st \<le> 100
      \<and> 0 \<le> confidence st \<and> confidence st \<le> 100 \<and> 0 \<le> creativity st \<and> creativity st \<le> 100)"

text \<open>
  What \<open>stats.update\<close> accepts for a stat column: an integer from 0 to 100.  Any other
  number (NaN among them) fails the validation, and nothing is written.
\<close>

definition stat_column :: "number \<Rightarrow> int option" where
  "stat_column v =
     (case v of
        Finite r \<Rightarrow> if r = of_int \<lfloor>r\<rfloor> \<and> 0 \<le> r \<and> r \<le> 100 then Some \<lfloor>r\<rfloor> else None
      | _ \<Rightarrow> None)"

text \<open>
  \<open>applyStatChange\<close>.  The six entries of \<open>updatedStats\<close> are the same expression,
  \<open>clampStat(stats.s + (changes.s || 0))\<close>, one per stat \<open>s\<close>.
\<close>

definition applyStatChange :: "nat \<Rightarrow> StatChanges \<Rightarrow> DB \<Rightarrow> Stats io" where
  "applyStatChange playerId changes db =
     (case findStats playerId db of
        None \<Rightarrow> (Inl (StatsNotFound playerId), db)
      | Some st \<Rightarrow>
          let updatedStats =
                (\<lambda>s. clampStat (js_add (Finite (real_of_int (stat_value s st))) (delta_or_0 changes s)))
          in case (stat_column (updatedStats Physical), stat_column (updatedStats Intelligence),
                   stat_column (updatedStats Discipline), stat_column (updatedStats Charisma),
                   stat_column (updatedStats Confidence), stat_column (updatedStats Creativity)) of
               (Some p, Some i, Some d, Some ch, Some co, Some cr) \<Rightarrow>
                 let st' = st\<lparr>physical := p, intelligence := i, discipline := d,
                              charisma := ch, confidence := co, creativity := cr\<rparr>;
                     db' = updateStatsRow st' db
                 in (reloadStats st' db', db')
             | _ \<Rightarrow> (Inl ValidationFailed, db))"

section \<open>ai/validation.ts\<close>

text \<open>
  The value \<open>JSON.parse\<close> returns.  An object is the list of its entries in
  insertion order; a parsed object has every key once.  A string is the list of its
  characters, those below U+0100.
\<close>

datatype json =
    JNull
  | JBool bool
  | JNumber real
  | JString string
  | JArray "json list"
  | JObject "(string \<times> json) list"

datatype Verdict = success | fail

record JudgeResponse =
  verdict :: Verdict
  xp :: int
  statChanges :: "(string \<times> real) list"
  comment :: string

definition VALID_STAT_NAMES :: "string list" where
  "VALID_STAT_NAMES =
     [''physical'', ''intelligence'', ''discipline'', ''charisma'', ''confidence'', ''creativity'']"

definition isInteger :: "real \<Rightarrow> bool" where
  "isInteger v = (real_of_int \<lfloor>v\<rfloor> = v)"

text \<open>The loop over \<open>Object.entries(statChanges)\<close> of a success verdict.\<close>

fun validateStatEntries :: "(string \<times> json) list \<Rightarrow> error + (string \<times> real) list" where
  "validateStatEntries [] = Inr []"
| "validateStatEntries ((statName, statValue) # rest) =
     (if statName \<notin> set VALID_STAT_NAMES then Inl (InvalidStatName statName)
      else case statValue of
             JNumber v \<Rightarrow>
               if \<not> isInteger v then Inl (StatChangeNotInteger statName)
               else (case validateStatEntries rest of
                       Inl e \<Rightarrow> Inl e
                     | Inr r \<Rightarrow> Inr ((statName, v) # r))
           | _ \<Rightarrow> Inl (StatChangeNotInteger statName))"

text \<open>
  \<open>validateJudgeResponse\<close>, check by check in the order of the source.  An array passes
  the first test (\<open>typeof [] === 'object'\<close>) and has no \<open>verdict\<close> key.
\<close>

definition validateJudgeResponse :: "json \<Rightarrow> error + JudgeResponse" where
  "validateJudgeResponse data =
     (case data of
        JArray xs \<Rightarrow> Inl MissingVerdict
      | JObject response \<Rightarrow>
          (case map_of response ''verdict'' of
             None \<Rightarrow> Inl MissingVerdict
           | Some v \<Rightarrow>
               if v \<noteq> JString ''success'' \<and> v \<noteq> JString ''fail'' then Inl InvalidVerdict
               else
                 (case map_of response ''xp'' of
                    None \<Rightarrow> Inl MissingXp
                  | Some (JNumber x) \<Rightarrow>
                      if x < 0 \<or> \<not> isInteger x then Inl InvalidXp
                      else
                        (case map_of response ''statChanges'' of
                           None \<Rightarrow> Inl MissingStatChanges
                         | Some (JObject changes) \<Rightarrow>
                             if v = JString ''fail'' \<and> x \<noteq> 0 then Inl FailWithXp
                             else if v = JString ''fail'' \<and> length changes > 0 then Inl FailWithStatChanges
                             else if v = JString ''success'' \<and> x = 0 then Inl SuccessWithoutXp
                             else
                               (case (if v = JString ''success'' then validateStatEntries changes
                                      else Inr []) of
                                  Inl e \<Rightarrow> Inl e
                                | Inr checked \<Rightarrow>
                                    (case map_of response ''comment'' of
                                       None \<Rightarrow> Inl MissingComment
                                     | Some (JString c) \<Rightarrow>
                                         Inr \<lparr>verdict = (if v = JString ''success'' then success else fail),
                                              xp = \<lfloor>x\<rfloor>,
                                              statChanges = checked,
                                              comment = c\<rparr>
                                     | Some _ \<Rightarrow> Inl CommentNotString))
                         | Some _ \<Rightarrow> Inl StatChangesNotObject)
                  | Some _ \<Rightarrow> Inl InvalidXp))
      | _ \<Rightarrow> Inl NotAnObject)"

section \<open>ai/judge.ts\<close>

definition DEFAULT_XP_BY_DIFFICULTY :: "Difficulty \<Rightarrow> int" where
  "DEFAULT_XP_BY_DIFFICULTY d =
     (case d of easy \<Rightarrow> 20 | medium \<Rightarrow> 50 | hard \<Rightarrow> 100 | extreme \<Rightarrow> 200)"

fun stat_name :: "StatType \<Rightarrow> string" where
  "stat_name Physical = ''physical''"
| "stat_name Intelligence = ''intelligence''"
| "stat_name Discipline = ''discipline''"
| "stat_name Charisma = ''charisma''"
| "stat_name Confidence = ''confidence''"
| "stat_name Creativity = ''creativity''"

definition getDeterministicFallback :: "Task \<Rightarrow> JudgeResponse" where
  "getDeterministicFallback task =
     \<lparr>verdict = success,
      xp = DEFAULT_XP_BY_DIFFICULTY (difficulty task),
      statChanges = [(stat_name (targetStat task), 1)],
      comment = ''Task evaluated using system fallback.''\<rparr>"

text \<open>
  What the call of the oracle comes to inside the \<open>try\<close> of \<open>judgeTask\<close>: the client
  threw (transport error, timeout), the completion had no content, \<open>JSON.parse\<close> threw,
  or it returned a value.
\<close>

datatype OracleReply = CallFailed | NoContent | Malformed | Parsed json

definition judgeAttempt :: "OracleReply \<Rightarrow> error + JudgeResponse" where
  "judgeAttempt reply =
     (case reply of
        CallFailed \<Rightarrow> Inl OpenAICallFailed
      | NoContent \<Rightarrow> Inl NoResponseContent
      | Malformed \<Rightarrow> Inl JsonParseFailed
      | Parsed parsedResponse \<Rightarrow> validateJudgeResponse parsedResponse)"

text \<open>The task, the stats and the evidence go into the prompt; the catch reads the task.\<close>

definition judgeTask :: "Task \<Rightarrow> Stats \<Rightarrow> string \<Rightarrow> OracleReply \<Rightarrow> JudgeResponse" where
  "judgeTask task playerStats ev reply =
     (case judgeAttempt reply of
        Inr validatedResponse \<Rightarrow> validatedResponse
      | Inl e \<Rightarrow> getDeterministicFallback task)"

section \<open>ai/quest-generator.ts\<close>

record QuestSuggestion =
  qs_type :: TaskType
  qs_description :: string
  qs_difficulty :: Difficulty
  qs_targetStat :: StatType

text \<open>
  \<open>str.trim().length === 0\<close>: every character of the string is white space or a line
  terminator (of those below U+0100: tab, line feed, vertical tab, form feed, carriage
  return, space and no-break space).
\<close>

definition is_whitespace :: "char \<Rightarrow> bool" where
  "is_whitespace c = (of_char c \<in> {9, 10, 11, 12, 13, 32, 160 :: nat})"

definition blank :: "string \<Rightarrow> bool" where
  "blank str = list_all is_whitespace str"

definition taskType_of :: "string \<Rightarrow> TaskType option" where
  "taskType_of t =
     (if t = ''daily'' then Some daily else if t = ''weekly'' then Some weekly
      else if t = ''dungeon'' then Some dungeon else if t = ''boss'' then Some boss else None)"

definition difficulty_of :: "string \<Rightarrow> Difficulty option" where
  "difficulty_of d =
     (if d = ''easy'' then Some easy else if d = ''medium'' then Some medium
      else if d = ''hard'' then Some hard else if d = ''extreme'' then Some extreme else None)"

text \<open>
  \<open>validateQuestSuggestion\<close>, check by check.  An array passes the first test and has
  no \<open>type\<close> key.  The suggested target stat must be a stat name and is then replaced
  by the required one.
\<close>

definition validateQuestSuggestion :: "json \<Rightarrow> StatType \<Rightarrow> error + QuestSuggestion" where
  "validateQuestSuggestion data requiredTargetStat =
     (case data of
        JArray xs \<Rightarrow> Inl QuestInvalidType
      | JObject response \<Rightarrow>
          (case (case map_of response ''type'' of Some (JString t) \<Rightarrow> taskType_of t | _ \<Rightarrow> None) of
             None \<Rightarrow> Inl QuestInvalidType
           | Some ty \<Rightarrow>
               (case map_of response ''description'' of
                  Some (JString descr) \<Rightarrow>
                    if blank descr then Inl QuestInvalidDescription
                    else
                      (case (case map_of response ''difficulty'' of
                               Some (JString d) \<Rightarrow> difficulty_of d
                             | _ \<Rightarrow> None) of
                         None \<Rightarrow> Inl QuestInvalidDifficulty
                       | Some diff \<Rightarrow>
                           (case map_of response ''targetStat'' of
                              Some (JString t) \<Rightarrow>
                                if t \<in> set VALID_STAT_NAMES
                                then Inr \<lparr>qs_type = ty, qs_description = descr,
                                          qs_difficulty = diff, qs_targetStat = requiredTargetStat\<rparr>
                                else Inl QuestInvalidTargetStat
                            | _ \<Rightarrow> Inl QuestInvalidTargetStat))
                | _ \<Rightarrow> Inl QuestInvalidDescription))
      | _ \<Rightarrow> Inl QuestNotAnObject)"

definition fallbackDescriptions :: "StatType \<Rightarrow> Difficulty \<Rightarrow> string" where
  "fallbackDescriptions s d =
     (case s of
        Physical \<Rightarrow>
          (case d of
             easy \<Rightarrow> ''Complete a 20-minute workout routine''
           | medium \<Rightarrow> ''Complete a 45-minute workout with strength training''
           | hard \<Rightarrow> ''Complete a 90-minute intensive workout session''
           | extreme \<Rightarrow> ''Complete a 2-hour cross-training session'')
      | Intelligence \<Rightarrow>
          (case d of
             easy \<Rightarrow> ''Read for 30 minutes on a new topic''
           | medium \<Rightarrow> ''Read and take notes on a challenging chapter''
           | hard \<Rightarrow> ''Study for 2 hours and create detailed notes''
           | extreme \<Rightarrow> ''Complete an intensive 4-hour study session'')
      | Discipline \<Rightarrow>
          (case d of
             easy \<Rightarrow> ''Maintain a consistent routine for 1 hour''
           | medium \<Rightarrow> ''Follow a strict schedule for 3 hours''
           | hard \<Rightarrow> ''Maintain discipline for 6 hours without deviation''
           | extreme \<Rightarrow> ''Complete a full day of disciplined routine'')
      | Charisma \<Rightarrow>
          (case d of
             easy \<Rightarrow> ''Have a meaningful conversation with someone''
           | medium \<Rightarrow> ''Practice public speaking for 30 minutes''
           | hard \<Rightarrow> ''Lead a group discussion or presentation''
           | extreme \<Rightarrow> ''Organize and host a social event'')
      | Confidence \<Rightarrow>
          (case d of
             easy \<Rightarrow> ''Try one new thing outside your comfort zone''
           | medium \<Rightarrow> ''Take initiative on a challenging task''
           | hard \<Rightarrow> ''Speak up in a high-stakes situation''
           | extreme \<Rightarrow> ''Take on a leadership role in a difficult situation'')
      | Creativity \<Rightarrow>
          (case d of
             easy \<Rightarrow> ''Create something new - art, writing, or code''
           | medium \<Rightarrow> ''Complete a creative project with multiple components''
           | hard \<Rightarrow> ''Create and refine a complex creative work''
           | extreme \<Rightarrow> ''Complete a major creative project from concept to finish''))"

definition getDeterministicQuestFallback :: "StatType \<Rightarrow> Difficulty \<Rightarrow> QuestSuggestion" where
  "getDeterministicQuestFallback target d =
     \<lparr>qs_type = daily, qs_description = fallbackDescriptions target d,
      qs_difficulty = d, qs_targetStat = target\<rparr>"

text \<open>
  \<open>generateQuestSuggestion\<close> catches every error of its attempt and returns the
  fallback: it never throws.  The player's stats, failures and rank go into the prompt.
\<close>

definition generateQuestSuggestion :: "OracleReply \<Rightarrow> StatType \<Rightarrow> Difficulty \<Rightarrow> QuestSuggestion" where
  "generateQuestSuggestion reply weakestStat desiredDifficulty =
     (case (case reply of
              CallFailed \<Rightarrow> Inl OpenAICallFailed
            | NoContent \<Rightarrow> Inl NoResponseContent
            | Malformed \<Rightarrow> Inl JsonParseFailed
            | Parsed parsedResponse \<Rightarrow> validateQuestSuggestion parsedResponse weakestStat) of
        Inr validatedResponse \<Rightarrow> validatedResponse
      | Inl e \<Rightarrow> getDeterministicQuestFallback weakestStat desiredDifficulty)"

section \<open>ai/narrator.ts\<close>

definition validateNarrativeResponse :: "json \<Rightarrow> error + string" where
  "validateNarrativeResponse data =
     (case data of
        JArray xs \<Rightarrow> Inl NarrativeInvalid
      | JObject response \<Rightarrow>
          (case map_of response ''narrative'' of
             Some (JString n) \<Rightarrow> if blank n then Inl NarrativeInvalid else Inr n
           | _ \<Rightarrow> Inl NarrativeInvalid)
      | _ \<Rightarrow> Inl NarrativeNotAnObject)"

definition getDeterministicNarrativeFallback :: "Verdict \<Rightarrow> string" where
  "getDeterministicNarrativeFallback v =
     (if v = success then ''Task completed.'' else ''Task requirements not met.'')"

definition generateNarrative :: "OracleReply \<Rightarrow> Verdict \<Rightarrow> string" where
  "generateNarrative reply v =
     (case (case reply of
              CallFailed \<Rightarrow> Inl OpenAICallFailed
            | NoContent \<Rightarrow> Inl NoResponseContent
            | Malformed \<Rightarrow> Inl JsonParseFailed
            | Parsed parsedResponse \<Rightarrow> validateNarrativeResponse parsedResponse) of
        Inr validatedResponse \<Rightarrow> validatedResponse
      | Inl e \<Rightarrow> getDeterministicNarrativeFallback v)"

section \<open>penalty.service.ts\<close>

text \<open>
  \<open>PenaltyModel.create\<close>: the severity must lie in the INTEGER range, the player must
  exist (foreign key), the key is fresh, and \<open>expiresAt\<close> is null unless given.
  \<open>now\<close> is the clock at the call.
\<close>

definition createPenalty ::
    "nat \<Rightarrow> PenaltyReason \<Rightarrow> int \<Rightarrow> int option \<Rightarrow> int \<Rightarrow> DB \<Rightarrow> Penalty io" where
  "createPenalty playerId rsn sev expires now db =
     (if \<not> int32 sev then (Inl IntegerOutOfRange, db)
      else if findPlayerByPk playerId db = None then (Inl ForeignKeyViolation, db)
      else
        let p = \<lparr>penalty_id = fresh_id (map penalty_id (penalties db)),
                 penalty_playerId = playerId, reason = rsn, severity = sev,
                 expiresAt = expires, penalty_createdAt = now\<rparr>
        in (Inr p, db\<lparr>penalties := penalties db @ [p]\<rparr>))"

text \<open>
  \<open>applyPenalty\<close>.  The severity index is an integer (\<open>calculatePSI\<close> returns
  \<open>Math.floor\<close>, the column is INTEGER).  \<open>setDate(getDate() + lockDays)\<close> moves the
  clock by \<open>lockDays\<close> days of 24 hours.  \<open>Math.min(Math.floor(psi / 5), 30)\<close> is
  taken over the exact quotient: the double \<open>psi / 5\<close> has the floor of the quotient
  below 150 and is at least 30 from there on.
\<close>

definition applyPenalty :: "pow_impl \<Rightarrow> nat \<Rightarrow> int \<Rightarrow> int \<Rightarrow> DB \<Rightarrow> string io" where
  "applyPenalty engine playerId psi now db =
     (if psi < 5 then
        (case createPenalty playerId missed_task psi None now db of
           (Inl e, db') \<Rightarrow> (Inl e, db')
         | (Inr p, db') \<Rightarrow> (Inr ''warning'', db'))
      else if psi \<ge> 5 \<and> psi < 10 then
        (case applyStatChange playerId
                [Discipline \<mapsto> Finite (- 1), Confidence \<mapsto> Finite (- 0.5)] db of
           (Inl e, db') \<Rightarrow> (Inl e, db')
         | (Inr st, db') \<Rightarrow>
             (case createPenalty playerId missed_task psi None now db' of
                (Inl e, db'') \<Rightarrow> (Inl e, db'')
              | (Inr p, db'') \<Rightarrow> (Inr ''stat_decay'', db'')))
      else if psi \<ge> 10 \<and> psi < 20 then
        (case addXp engine playerId (- round (real_of_int psi * 2)) db of
           (Inl e, db') \<Rightarrow> (Inl e, db')
         | (Inr pl, db') \<Rightarrow>
             (case createPenalty playerId xp_loss psi (Some (now + 24 * 60 * 60 * 1000)) now db' of
                (Inl e, db'') \<Rightarrow> (Inl e, db'')
              | (Inr p, db'') \<Rightarrow> (Inr ''xp_loss'', db'')))
      else if psi \<ge> 20 then
        (let lockDays = min (\<lfloor>real_of_int psi / 5\<rfloor>) 30;
             expires = now + lockDays * day_ms
         in case createPenalty playerId rank_lock psi (Some expires) now db of
              (Inl e, db') \<Rightarrow> (Inl e, db')
            | (Inr p, db') \<Rightarrow> (Inr ''rank_lock'', db'))
      else (Inr ''none'', db))"


definition getActivePenalties :: "nat \<Rightarrow> int \<Rightarrow> DB \<Rightarrow> Penalty list" where
  "getActivePenalties playerId now db =
     sort_key (\<lambda>p. - penalty_createdAt p)
       (filter (\<lambda>p. penalty_playerId p = playerId
                   \<and> (expiresAt p = None \<or> (case expiresAt p of None \<Rightarrow> False | Some t \<Rightarrow> t > now)))
               (penalties db))"

definition cleanupExpiredPenalties :: "int \<Rightarrow> DB \<Rightarrow> nat \<times> DB" where
  "cleanupExpiredPenalties now db =
     (let doomed = (\<lambda>p. case expiresAt p of None \<Rightarrow> False | Some t \<Rightarrow> t < now)
      in (length (filter doomed (penalties db)),
          db\<lparr>penalties := filter (\<lambda>p. \<not> doomed p) (penalties db)\<rparr>))"

section \<open>task.service.ts\<close>

definition findTaskByPk :: "nat \<Rightarrow> DB \<Rightarrow> Task option" where
  "findTaskByPk taskId db = find (\<lambda>t. task_id t = taskId) (tasks db)"

definition updateTaskLogRow :: "TaskLog \<Rightarrow> DB \<Rightarrow> DB" where
  "updateTaskLogRow l db =
     db\<lparr>taskLogs := map (\<lambda>q. if log_id q = log_id l then l else q) (taskLogs db)\<rparr>"

text \<open>\<open>TaskLogModel.create\<close>: both foreign keys must name a row; the key is fresh.\<close>

definition createTaskLog ::
    "nat \<Rightarrow> nat \<Rightarrow> TaskStatus \<Rightarrow> string option \<Rightarrow> int \<Rightarrow> DB \<Rightarrow> TaskLog io" where
  "createTaskLog taskId playerId st ev now db =
     (if findTaskByPk taskId db = None \<or> findPlayerByPk playerId db = None
      then (Inl ForeignKeyViolation, db)
      else
        let l = \<lparr>log_id = fresh_id (map log_id (taskLogs db)), log_taskId = taskId,
                 log_playerId = playerId, status = st, evidence = ev, aiVerdict = None,
                 log_createdAt = now\<rparr>
        in (Inr l, db\<lparr>taskLogs := taskLogs db @ [l]\<rparr>))"




section \<open>The collaborators outside the repository\<close>

text \<open>
  What one run of the daily job gets from outside: the clock; the language model's
  reply to the judge and to the narrator when a task log is judged, and to the quest
  generator when a player's task is generated; the draw of \<open>Math.random()\<close> for the
  base XP, a double from 0 to below 1; and the engine's \<open>Math.pow\<close>.
\<close>

record Env =
  clock :: int
  judge_reply :: "nat \<Rightarrow> OracleReply"
  narrator_reply :: "nat \<Rightarrow> OracleReply"
  quest_reply :: "nat \<Rightarrow> OracleReply"
  random_xp :: real
  math_pow :: pow_impl

section \<open>stat.service.ts: daily decay\<close>

definition DAILY_DECAY_RATES :: "StatType \<Rightarrow> real" where
  "DAILY_DECAY_RATES s =
     (case s of Discipline \<Rightarrow> dbl (- 0.2) | Physical \<Rightarrow> dbl (- 0.1)
              | Intelligence \<Rightarrow> dbl (- 0.05) | Confidence \<Rightarrow> dbl (- 0.1)
              | Charisma \<Rightarrow> dbl (- 0.05) | Creativity \<Rightarrow> dbl (- 0.05))"

definition hasCompletedDailyQuestToday :: "nat \<Rightarrow> int \<Rightarrow> DB \<Rightarrow> bool" where
  "hasCompletedDailyQuestToday playerId now db =
     (find (\<lambda>l. log_playerId l = playerId \<and> status l = completed
                \<and> startOfDay now \<le> log_createdAt l \<and> log_createdAt l \<le> endOfDay now
                \<and> (case findTaskByPk (log_taskId l) db of
                       None \<Rightarrow> False
                     | Some t \<Rightarrow> task_type t = daily))
           (taskLogs db) \<noteq> None)"

definition applyDailyDecay :: "nat \<Rightarrow> int \<Rightarrow> DB \<Rightarrow> Stats option io" where
  "applyDailyDecay playerId now db =
     (if hasCompletedDailyQuestToday playerId now db then (Inr None, db)
      else
        (case findStats playerId db of
           None \<Rightarrow> (Inl (StatsNotFound playerId), db)
         | Some st \<Rightarrow>
             (case applyStatChange playerId (\<lambda>s. Some (Finite (DAILY_DECAY_RATES s))) db of
                (Inl e, db') \<Rightarrow> (Inl e, db')
              | (Inr updated, db') \<Rightarrow> (Inr (Some updated), db'))))"

section \<open>penalty.service.ts: severity index\<close>

definition DIFFICULTY_MULTIPLIERS :: "Difficulty \<Rightarrow> int" where
  "DIFFICULTY_MULTIPLIERS d = (case d of easy \<Rightarrow> 1 | medium \<Rightarrow> 2 | hard \<Rightarrow> 3 | extreme \<Rightarrow> 4)"

text \<open>
  The missed logs of the last seven days, each joined with its task
  (\<open>required: true\<close>).  The severity index is taken over exact numbers: the doubles
  \<open>length * 0.1 + 1\<close> and \<open>psi * streakFactor\<close> have the floor of the exact product
  for every count of logs (the factor is 2 from ten logs on).
\<close>

definition recentMissedTasks :: "nat \<Rightarrow> int \<Rightarrow> DB \<Rightarrow> (TaskLog \<times> Task) list" where
  "recentMissedTasks playerId now db =
     List.map_filter
       (\<lambda>l. if log_playerId l = playerId \<and> status l = missed \<and> log_createdAt l \<ge> now - 7 * day_ms
            then (case findTaskByPk (log_taskId l) db of None \<Rightarrow> None | Some t \<Rightarrow> Some (l, t))
            else None)
       (taskLogs db)"

definition calculatePSI :: "nat \<Rightarrow> int \<Rightarrow> DB \<Rightarrow> int" where
  "calculatePSI playerId now db =
     (let recent = recentMissedTasks playerId now db
      in if length recent = 0 then 0
         else
           let psi = fold (\<lambda>(l, t) acc. acc + DIFFICULTY_MULTIPLIERS (difficulty t)) recent 0;
               streakFactor = min (real (length recent) * 0.1 + 1) 2.0
           in \<lfloor>real_of_int psi * streakFactor\<rfloor>)"

definition applyMissPenalty :: "pow_impl \<Rightarrow> nat \<Rightarrow> int \<Rightarrow> DB \<Rightarrow> (int \<times> string \<times> string) io" where
  "applyMissPenalty engine playerId now db =
     (let psi = calculatePSI playerId now db
      in if psi = 0 then (Inr (psi, ''none'', ''No penalty applied.''), db)
         else
           (case applyPenalty engine playerId psi now db of
              (Inl e, db') \<Rightarrow> (Inl e, db')
            | (Inr penalty, db') \<Rightarrow>
                (Inr (psi, penalty,
                      if penalty = ''warning'' then ''Warning issued for missed tasks.''
                      else if penalty = ''stat_decay'' then ''Stats reduced due to missed tasks.''
                      else if penalty = ''xp_loss''
                        then ''Lost XP due to missed tasks. Penalty expires in 24 hours.''
                      else if penalty = ''rank_lock''
                        then ''Rank progression locked due to severe penalties.''
                      else ''No penalty applied.''),
                 db')))"

section \<open>task.service.ts: generation, judging, missed tasks\<close>

definition TASK_TEMPLATES_daily_xpRange :: "Difficulty \<Rightarrow> int \<times> int" where
  "TASK_TEMPLATES_daily_xpRange d =
     (case d of easy \<Rightarrow> (20, 30) | medium \<Rightarrow> (31, 35) | hard \<Rightarrow> (36, 40) | extreme \<Rightarrow> (50, 60))"

text \<open>The loop of \<open>getWeakestStat\<close> over the six entries: a strictly lower value wins.\<close>

definition getWeakestStat :: "nat \<Rightarrow> DB \<Rightarrow> error + StatType" where
  "getWeakestStat playerId db =
     (case findStats playerId db of
        None \<Rightarrow> Inl (StatsNotFound playerId)
      | Some st \<Rightarrow>
          Inr (fst (fold (\<lambda>s (weakestStat, lowestValue).
                            if stat_value s st < lowestValue then (s, stat_value s st)
                            else (weakestStat, lowestValue))
                         [Physical, Intelligence, Discipline, Charisma, Confidence, Creativity]
                         (Physical, physical st))))"

definition calculateXpReward :: "Difficulty \<Rightarrow> int \<Rightarrow> int" where
  "calculateXpReward d baseXp =
     round (dbl (real_of_int baseXp
                 * (case d of easy \<Rightarrow> 1.0 | medium \<Rightarrow> 1.5 | hard \<Rightarrow> 2.5 | extreme \<Rightarrow> 4.0)))"

definition getRecentTaskHistory :: "nat \<Rightarrow> int \<Rightarrow> int \<Rightarrow> DB \<Rightarrow> TaskLog list" where
  "getRecentTaskHistory playerId days now db =
     sort_key (\<lambda>l. - log_createdAt l)
       (filter (\<lambda>l. log_playerId l = playerId \<and> log_createdAt l \<ge> now - days * day_ms
                   \<and> findTaskByPk (log_taskId l) db \<noteq> None)
               (taskLogs db))"

definition calculateDifficultyScaling :: "nat \<Rightarrow> Rank \<Rightarrow> Difficulty" where
  "calculateDifficultyScaling recentFailures r =
     (if recentFailures = 0 then
        (if r = E \<or> r = D then easy
         else if r = C \<or> r = B then medium
         else if r = A \<or> r = S then hard
         else extreme)
      else if recentFailures \<le> 2 then
        (if r = E \<or> r = D then easy else medium)
      else if recentFailures \<le> 5 then easy
      else easy)"

definition countRecentFailures :: "TaskLog list \<Rightarrow> nat" where
  "countRecentFailures logs = length (filter (\<lambda>l. status l = failed \<or> status l = missed) logs)"

text \<open>
  \<open>TaskModel.create\<close>: \<open>xpReward\<close> is validated (\<open>min: 0\<close>) and must lie in the
  INTEGER range; the key is fresh.
\<close>

definition createTask ::
    "TaskType \<Rightarrow> Difficulty \<Rightarrow> string \<Rightarrow> StatType \<Rightarrow> int \<Rightarrow> int \<Rightarrow> DB \<Rightarrow> Task io" where
  "createTask ty d descr target reward dl db =
     (if reward < 0 then (Inl ValidationFailed, db)
      else if \<not> int32 reward then (Inl IntegerOutOfRange, db)
      else
        let t = \<lparr>task_id = fresh_id (map task_id (tasks db)), task_type = ty, difficulty = d,
                 description = descr, targetStat = target, xpReward = reward, deadline = dl\<rparr>
        in (Inr t, db\<lparr>tasks := tasks db @ [t]\<rparr>))"

text \<open>
  \<open>generateDailyTask\<close>.  The \<open>catch\<close> around \<open>generateQuestSuggestion\<close> is never
  entered, the call catching every error itself, so \<open>getRandomDescription\<close> is not
  part of the model.  \<open>Math.floor(Math.random() * n)\<close> rounds the product to a double.
\<close>

definition generateDailyTask :: "Env \<Rightarrow> nat \<Rightarrow> DB \<Rightarrow> Task io" where
  "generateDailyTask env playerId db =
     (case getWeakestStat playerId db of
        Inl e \<Rightarrow> (Inl e, db)
      | Inr weakestStat \<Rightarrow>
          (case findPlayerByPk playerId db of
             None \<Rightarrow> (Inl (PlayerNotFound playerId), db)
           | Some player \<Rightarrow>
               (case findStats playerId db of
                  None \<Rightarrow> (Inl (StatsNotFound playerId), db)
                | Some playerStats \<Rightarrow>
                    let recentTaskLogs = getRecentTaskHistory playerId 21 (clock env) db;
                        recentFailures = countRecentFailures recentTaskLogs;
                        desiredDifficulty = calculateDifficultyScaling recentFailures (rank player);
                        questSuggestion = generateQuestSuggestion (quest_reply env playerId)
                                            weakestStat desiredDifficulty;
                        finalTargetStat = weakestStat;
                        finalDifficulty = qs_difficulty questSuggestion;
                        (lo, hi) = TASK_TEMPLATES_daily_xpRange finalDifficulty;
                        baseXp = \<lfloor>dbl (random_xp env * real_of_int (hi - lo + 1))\<rfloor> + lo;
                        reward = calculateXpReward finalDifficulty baseXp
                    in
                      (case createTask (qs_type questSuggestion) finalDifficulty
                              (qs_description questSuggestion) finalTargetStat reward
                              (endOfDay (clock env)) db of
                         (Inl e, db') \<Rightarrow> (Inl e, db')
                       | (Inr task, db') \<Rightarrow>
                           (case createTaskLog (task_id task) playerId pending None
                                   (clock env) db' of
                              (Inl e, db'') \<Rightarrow> (Inl e, db'')
                            | (Inr l, db'') \<Rightarrow> (Inr task, db''))))))"

record TaskResolution =
  res_success :: bool
  res_xpAwarded :: int
  res_statChanges :: "(string \<times> real) list"
  res_feedback :: string

definition convertJudgeResponseToResolution :: "JudgeResponse \<Rightarrow> TaskResolution" where
  "convertJudgeResponseToResolution judgeResponse =
     \<lparr>res_success = (verdict judgeResponse = success),
      res_xpAwarded = xp judgeResponse,
      res_statChanges = statChanges judgeResponse,
      res_feedback = comment judgeResponse\<rparr>"

definition findTaskLogByPk :: "nat \<Rightarrow> DB \<Rightarrow> TaskLog option" where
  "findTaskLogByPk taskLogId db = find (\<lambda>l. log_id l = taskLogId) (taskLogs db)"

definition reloadTaskLog :: "TaskLog \<Rightarrow> DB \<Rightarrow> error + TaskLog" where
  "reloadTaskLog l db =
     (case findTaskLogByPk (log_id l) db of None \<Rightarrow> Inl RowMissing | Some q \<Rightarrow> Inr q)"

text \<open>\<open>NarrativeModel.create\<close>: the task log must exist (foreign key); the key is fresh.\<close>

definition createNarrative :: "nat \<Rightarrow> string \<Rightarrow> DB \<Rightarrow> Narrative io" where
  "createNarrative taskLogId txt db =
     (if findTaskLogByPk taskLogId db = None then (Inl ForeignKeyViolation, db)
      else
        let n = \<lparr>narrative_id = fresh_id (map narrative_id (narratives db)),
                 narrative_taskLogId = taskLogId, narrative_text = txt\<rparr>
        in (Inr n, db\<lparr>narratives := narratives db @ [n]\<rparr>))"

text \<open>The stat changes of a verdict, read by stat name as \<open>applyStatChange\<close> reads them.\<close>

definition changes_of :: "(string \<times> real) list \<Rightarrow> StatChanges" where
  "changes_of entries = (\<lambda>s. map_option Finite (map_of entries (stat_name s)))"

definition resolveTask ::
    "pow_impl \<Rightarrow> TaskLog \<Rightarrow> TaskResolution \<Rightarrow> string option \<Rightarrow> DB \<Rightarrow> TaskLog io" where
  "resolveTask engine taskLog resolution narrative db =
     (let newStatus = (if res_success resolution then completed else failed);
          updated = taskLog
            \<lparr>status := newStatus,
             aiVerdict := Some (if res_feedback resolution \<noteq> [] then res_feedback resolution
                                else if res_success resolution then ''Task completed successfully''
                                else ''Task requirements not met'')\<rparr>;
          db1 = updateTaskLogRow updated db
      in case (case narrative of
                 None \<Rightarrow> (Inr (), db1)
               | Some txt \<Rightarrow>
                   if txt = [] then (Inr (), db1)
                   else (case createNarrative (log_id taskLog) txt db1 of
                           (Inl e, db2) \<Rightarrow> (Inl e, db2)
                         | (Inr n, db2) \<Rightarrow> (Inr (), db2))) of
           (Inl e, db2) \<Rightarrow> (Inl e, db2)
         | (Inr u, db2) \<Rightarrow>
             if res_success resolution then
               (case addXp engine (log_playerId taskLog) (res_xpAwarded resolution) db2 of
                  (Inl e, db3) \<Rightarrow> (Inl e, db3)
                | (Inr pl, db3) \<Rightarrow>
                    if length (res_statChanges resolution) > 0 then
                      (case applyStatChange (log_playerId taskLog)
                              (changes_of (res_statChanges resolution)) db3 of
                         (Inl e, db4) \<Rightarrow> (Inl e, db4)
                       | (Inr st, db4) \<Rightarrow> (reloadTaskLog updated db4, db4))
                    else (reloadTaskLog updated db3, db3))
             else (reloadTaskLog updated db2, db2))"

text \<open>
  \<open>judgeAndResolveTask\<close>.  \<open>generateNarrative\<close> catches every error itself, so the
  \<open>catch\<close> around it is never entered and the narrative is never null.
\<close>

definition judgeAndResolveTask :: "Env \<Rightarrow> nat \<Rightarrow> DB \<Rightarrow> TaskLog io" where
  "judgeAndResolveTask env taskLogId db =
     (case findTaskLogByPk taskLogId db of
        None \<Rightarrow> (Inl (TaskLogNotFound taskLogId), db)
      | Some taskLog \<Rightarrow>
          (case findTaskByPk (log_taskId taskLog) db of
             None \<Rightarrow> (Inl (TaskLogNotFound taskLogId), db)
           | Some task \<Rightarrow>
               if status taskLog \<noteq> pending then (Inl (TaskLogNotPending taskLogId), db)
               else
                 (case evidence taskLog of
                    None \<Rightarrow> (Inl (NoEvidence taskLogId), db)
                  | Some ev \<Rightarrow>
                      if ev = [] then (Inl (NoEvidence taskLogId), db)
                      else
                        (case findStats (log_playerId taskLog) db of
                           None \<Rightarrow> (Inl (StatsNotFound (log_playerId taskLog)), db)
                         | Some playerStats \<Rightarrow>
                             let judgeResponse = judgeTask task playerStats ev (judge_reply env taskLogId);
                                 resolution = convertJudgeResponseToResolution judgeResponse;
                                 narrativeText = Some (generateNarrative (narrator_reply env taskLogId)
                                                        (verdict judgeResponse))
                             in resolveTask (math_pow env) taskLog resolution narrativeText db))))"

definition checkAndMarkMissedTasks :: "nat \<Rightarrow> int \<Rightarrow> DB \<Rightarrow> TaskLog list io" where
  "checkAndMarkMissedTasks playerId now db =
     (let missedTaskLogs =
            filter (\<lambda>l. log_playerId l = playerId \<and> status l = pending
                        \<and> (case findTaskByPk (log_taskId l) db of
                               None \<Rightarrow> False
                             | Some t \<Rightarrow> deadline t < now))
                   (taskLogs db)
      in if length missedTaskLogs = 0 then (Inr [], db)
         else
           let taskLogIds = map log_id missedTaskLogs;
               db' = db\<lparr>taskLogs := map (\<lambda>l. if log_id l \<in> set taskLogIds
                                              then l\<lparr>status := missed\<rparr> else l)
                                        (taskLogs db)\<rparr>
           in (Inr (filter (\<lambda>l. log_id l \<in> set taskLogIds) (taskLogs db')), db'))"

section \<open>jobs/dailyDecay.job.ts\<close>

definition findPendingTasksNearDeadline :: "nat \<Rightarrow> int \<Rightarrow> DB \<Rightarrow> TaskLog list" where
  "findPendingTasksNearDeadline playerId now db =
     filter (\<lambda>l. log_playerId l = playerId \<and> status l = pending
                \<and> (case findTaskByPk (log_taskId l) db of
                       None \<Rightarrow> False
                     | Some t \<Rightarrow> deadline t \<ge> now \<and> deadline t \<le> now + 60 * 60 * 1000))
            (taskLogs db)"

text \<open>
  The transaction of \<open>processPlayerDailyFlow\<close>.  Sequelize runs a statement inside a
  transaction only when the statement's options carry it (config/database.ts sets up no
  CLS namespace that would attach it by itself).  A transaction is modelled by the
  undo steps of the statements that ran inside it: \<open>rollback\<close> applies them,
  \<open>commit\<close> drops them.
\<close>

type_synonym Transaction = "(DB \<Rightarrow> DB) list"

definition rollback :: "Transaction \<Rightarrow> DB \<Rightarrow> DB" where
  "rollback t db = fold (\<lambda>undo d. undo d) t db"

definition commit :: "Transaction \<Rightarrow> DB \<Rightarrow> DB" where
  "commit t db = db"

text \<open>
  \<open>processPlayerDailyFlow\<close>.  The flow passes the transaction to \<open>Player.findByPk\<close>
  alone, a read; the five steps run their statements without it, so the transaction
  stays empty up to its commit or rollback.  Step 1 swallows the error of each judged
  log and keeps what the call had written.
\<close>

definition processPlayerDailyFlow :: "Env \<Rightarrow> nat \<Rightarrow> DB \<Rightarrow> unit io" where
  "processPlayerDailyFlow env playerId db =
     (let transaction = [] :: Transaction;
          pendingTasksNearDeadline = findPendingTasksNearDeadline playerId (clock env) db;
          db1 = fold (\<lambda>taskLog d. snd (judgeAndResolveTask env (log_id taskLog) d))
                     pendingTasksNearDeadline db
      in case applyDailyDecay playerId (clock env) db1 of
           (Inl e, db2) \<Rightarrow> (Inl e, rollback transaction db2)
         | (Inr decayed, db2) \<Rightarrow>
             (case checkAndMarkMissedTasks playerId (clock env) db2 of
                (Inl e, db3) \<Rightarrow> (Inl e, rollback transaction db3)
              | (Inr missedTasks, db3) \<Rightarrow>
                  (case (if length missedTasks > 0 then
                           (case findPlayerByPk playerId db3 of
                              None \<Rightarrow> (Inr (), db3)
                            | Some player \<Rightarrow>
                                (case applyMissPenalty (math_pow env) playerId (clock env) db3 of
                                   (Inl e, db4) \<Rightarrow> (Inl e, db4)
                                 | (Inr r, db4) \<Rightarrow> (Inr (), db4)))
                         else (Inr (), db3)) of
                     (Inl e, db4) \<Rightarrow> (Inl e, rollback transaction db4)
                   | (Inr u, db4) \<Rightarrow>
                       (case generateDailyTask env playerId db4 of
                          (Inl e, db5) \<Rightarrow> (Inl e, rollback transaction db5)
                        | (Inr task, db5) \<Rightarrow> (Inr (), commit transaction db5)))))"

text \<open>
  \<open>runDailyDecayJob\<close>: every player in turn; an error of one player's flow is counted
  and logged, and the loop goes on.  The result is the pair of counters.
\<close>

definition runDailyDecayJob :: "Env \<Rightarrow> DB \<Rightarrow> (nat \<times> nat) \<times> DB" where
  "runDailyDecayJob env db =
     fold (\<lambda>player ((successCount, errorCount), d).
             case processPlayerDailyFlow env (player_id player) d of
               (Inl e, d') \<Rightarrow> ((successCount, errorCount + 1), d')
             | (Inr u, d') \<Rightarrow> ((successCount + 1, errorCount), d'))
          (players db) ((0, 0), db)"

section \<open>Example data\<close>

text \<open>
  The rows the service tests start from (\<open>beforeEach\<close>): one player of rank E, level 1
  and no XP, whose six stats are 50.
\<close>

definition test_player :: Player where
  "test_player = \<lparr>player_id = 1, rank = E, level = 1, totalXp = 0\<rparr>"

definition test_stats :: Stats where
  "test_stats = \<lparr>stats_playerId = 1, physical = 50, intelligence = 50, discipline = 50,
                  charisma = 50, confidence = 50, creativity = 50\<rparr>"

definition test_db :: DB where
  "test_db = \<lparr>players = [test_player], stats = [test_stats], tasks = [], taskLogs = [],
               penalties = [], narratives = []\<rparr>"

text \<open>A daily task of medium difficulty that targets the physical stat.\<close>

definition test_task :: Task where
  "test_task = \<lparr>task_id = 1, task_type = daily, difficulty = medium,
                 description = ''Complete a 30-minute workout'', targetStat = Physical,
                 xpReward = 25, deadline = 1000\<rparr>"


text \<open>
  A run of the daily job at noon of day 5 in which no call of the language model
  succeeds, and a database it can meet.  Player 1 has no stats row, a
  pending log whose task was due at the end of day 4, and a daily task completed today
  (which makes the decay step skip); player 2 has stats and no log.
\<close>

definition job_clock :: int where
  "job_clock = 5 * day_ms + 12 * 60 * 60 * 1000"

definition job_env :: Env where
  "job_env = \<lparr>clock = job_clock, judge_reply = (\<lambda>l. CallFailed),
               narrator_reply = (\<lambda>l. CallFailed), quest_reply = (\<lambda>p. CallFailed),
               random_xp = 0, math_pow = correctly_rounded_pow\<rparr>"

definition overdue_task :: Task where
  "overdue_task = \<lparr>task_id = 1, task_type = daily, difficulty = easy,
                    description = ''Take a 45-minute walk or run'', targetStat = Physical,
                    xpReward = 20, deadline = 5 * day_ms - 1\<rparr>"

definition done_task :: Task where
  "done_task = \<lparr>task_id = 2, task_type = daily, difficulty = easy,
                 description = ''Read for 45 minutes on a challenging topic'',
                 targetStat = Intelligence, xpReward = 20, deadline = 6 * day_ms - 1\<rparr>"

definition overdue_log :: TaskLog where
  "overdue_log = \<lparr>log_id = 1, log_taskId = 1, log_playerId = 1, status = pending,
                   evidence = None, aiVerdict = None, log_createdAt = 4 * day_ms\<rparr>"

definition done_log :: TaskLog where
  "done_log = \<lparr>log_id = 2, log_taskId = 2, log_playerId = 1, status = completed,
                evidence = Some ''read two chapters'', aiVerdict = Some ''Task completed successfully'',
                log_createdAt = 5 * day_ms + 60 * 60 * 1000\<rparr>"

definition job_db :: DB where
  "job_db = \<lparr>players = [test_player, test_player\<lparr>player_id := 2\<rparr>],
              stats = [test_stats\<lparr>stats_playerId := 2\<rparr>],
              tasks = [overdue_task, done_task],
              taskLogs = [overdue_log, done_log],
              penalties = [], narratives = []\<rparr>"

section \<open>Auxiliary facts\<close>

text \<open>Doubles: rounding to the nearest even, its error, and the reals it keeps.\<close>

lemma round_half_even_near:
  assumes "\<bar>y - of_int n\<bar> < 1 / 2"
  shows "round_half_even y = n"
proof (cases "of_int n \<le> y")
  case True
  then have "\<lfloor>y\<rfloor> = n" using assms by (intro floor_unique) auto
  then show ?thesis using assms True by (simp add: round_half_even_def)
next
  case False
  then have f: "\<lfloor>y\<rfloor> = n - 1" using assms by (intro floor_unique) auto
  have "1 / 2 < y - of_int (n - 1)" using assms False by auto
  then show ?thesis unfolding round_half_even_def f by (simp add: Let_def)
qed

lemma round_half_even_of_int [simp]: "round_half_even (of_int n) = n"
  by (rule round_half_even_near) simp

lemma round_half_even_error: "\<bar>y - of_int (round_half_even y)\<bar> \<le> 1 / 2"
proof -
  have "of_int \<lfloor>y\<rfloor> \<le> y" "y < of_int \<lfloor>y\<rfloor> + 1" by linarith+
  then show ?thesis
    by (auto simp: round_half_even_def Let_def)
qed

lemma floor_log2_bounds:
  assumes "x \<noteq> 0"
  shows "2 powr of_int \<lfloor>log 2 \<bar>x\<bar>\<rfloor> \<le> \<bar>x\<bar>" "\<bar>x\<bar> < 2 powr (of_int \<lfloor>log 2 \<bar>x\<bar>\<rfloor> + 1)"
proof -
  have pos: "0 < \<bar>x\<bar>" using assms by simp
  have "of_int \<lfloor>log 2 \<bar>x\<bar>\<rfloor> \<le> log 2 \<bar>x\<bar>" by linarith
  then have "2 powr of_int \<lfloor>log 2 \<bar>x\<bar>\<rfloor> \<le> 2 powr log 2 \<bar>x\<bar>"
    by (intro powr_mono) auto
  then show "2 powr of_int \<lfloor>log 2 \<bar>x\<bar>\<rfloor> \<le> \<bar>x\<bar>" using pos by simp
  have "log 2 \<bar>x\<bar> < of_int \<lfloor>log 2 \<bar>x\<bar>\<rfloor> + 1" by linarith
  then have "2 powr log 2 \<bar>x\<bar> < 2 powr (of_int \<lfloor>log 2 \<bar>x\<bar>\<rfloor> + 1)"
    by (intro powr_less_mono) auto
  then show "\<bar>x\<bar> < 2 powr (of_int \<lfloor>log 2 \<bar>x\<bar>\<rfloor> + 1)" using pos by simp
qed

lemma floor_log2_unique:
  assumes "2 powr of_int e \<le> \<bar>x\<bar>" "\<bar>x\<bar> < 2 powr (of_int e + 1)"
  shows "\<lfloor>log 2 \<bar>x\<bar>\<rfloor> = e"
proof -
  have pos: "0 < \<bar>x\<bar>"
    using assms(1) by (smt (verit) powr_gt_zero)
  have "log 2 (2 powr of_int e) \<le> log 2 \<bar>x\<bar>"
    using assms(1) pos by (subst log_le_cancel_iff) auto
  then have a: "of_int e \<le> log 2 \<bar>x\<bar>" by simp
  have "log 2 \<bar>x\<bar> < log 2 (2 powr (of_int e + 1))"
    using assms(2) pos by (subst log_less_cancel_iff) auto
  then have b: "log 2 \<bar>x\<bar> < of_int e + 1" by simp
  show ?thesis using a b by (intro floor_unique) auto
qed

text \<open>The double nearest to a real, given the binade and the nearest multiple of the ulp.\<close>

lemma dbl_eqI:
  fixes u x :: real
  assumes u: "u = 2 powr of_int k"
    and lo: "2 ^ 52 * u \<le> \<bar>x\<bar>" and hi: "\<bar>x\<bar> < 2 ^ 53 * u"
    and near: "\<bar>x - of_int n * u\<bar> < u / 2"
  shows "dbl x = of_int n * u"
proof -
  have upos: "0 < u" using u by simp
  have p52: "2 powr of_int (k + 52) = 2 ^ 52 * u"
    unfolding u by (simp add: powr_add)
  have p53: "2 powr (of_int (k + 52) + 1) = 2 ^ 53 * u"
    unfolding u by (simp add: powr_add)
  have x0: "x \<noteq> 0" using lo upos by auto
  have e: "\<lfloor>log 2 \<bar>x\<bar>\<rfloor> = k + 52"
    by (rule floor_log2_unique) (use lo hi p52 p53 in auto)
  have ulp: "2 powr (of_int (k + 52) - 52) = u"
    unfolding u by simp
  have "\<bar>x / u - of_int n\<bar> = \<bar>x - of_int n * u\<bar> / u"
    using upos by (simp add: field_simps abs_if)
  also have "\<dots> < 1 / 2"
    using near upos by (simp add: field_simps)
  finally have r: "round_half_even (x / u) = n"
    by (rule round_half_even_near)
  have "dbl x = 2 powr (of_int (k + 52) - 52)
                * of_int (round_half_even (x / 2 powr (of_int (k + 52) - 52)))"
    using x0 unfolding dbl_def e [symmetric] by (simp add: Let_def)
  then show ?thesis
    unfolding ulp r by simp
qed

lemma dbl_error: "\<bar>dbl x - x\<bar> \<le> \<bar>x\<bar> / 2 ^ 53"
proof (cases "x = 0")
  case True
  then show ?thesis by (simp add: dbl_def)
next
  case False
  define e where "e = \<lfloor>log 2 \<bar>x\<bar>\<rfloor>"
  define u :: real where "u = 2 powr (of_int e - 52)"
  have upos: "0 < u" by (simp add: u_def)
  have d: "dbl x = u * of_int (round_half_even (x / u))"
    using False by (simp add: dbl_def e_def u_def Let_def)
  have "\<bar>dbl x - x\<bar> = u * \<bar>of_int (round_half_even (x / u)) - x / u\<bar>"
    unfolding d using upos by (simp add: field_simps abs_mult [symmetric] abs_if)
  also have "\<dots> \<le> u * (1 / 2)"
    using round_half_even_error [of "x / u"] upos
    by (intro mult_left_mono) (auto simp: abs_minus_commute)
  also have "\<dots> = 2 powr of_int e / 2 ^ 53"
    unfolding u_def by (simp add: powr_diff)
  also have "\<dots> \<le> \<bar>x\<bar> / 2 ^ 53"
    using floor_log2_bounds(1) [OF False] by (simp add: e_def divide_right_mono)
  finally show ?thesis .
qed

lemma dbl_exact:
  assumes x: "x = of_int m * 2 powr of_int j" and m: "\<bar>m\<bar> < 2 ^ 53"
  shows "dbl x = x"
proof (cases "m = 0")
  case True
  then show ?thesis using x by (simp add: dbl_def)
next
  case False
  have x0: "x \<noteq> 0" using False x by simp
  define e where "e = \<lfloor>log 2 \<bar>x\<bar>\<rfloor>"
  define u :: real where "u = 2 powr (of_int e - 52)"
  have upos: "0 < u" by (simp add: u_def)
  have "2 powr of_int e \<le> \<bar>x\<bar>"
    using floor_log2_bounds(1) [OF x0] by (simp add: e_def)
  also have "\<bar>x\<bar> = \<bar>of_int m\<bar> * 2 powr of_int j"
    unfolding x by (simp add: abs_mult)
  also have "\<dots> < 2 ^ 53 * 2 powr of_int j"
  proof -
    have "\<bar>real_of_int m\<bar> < 2 ^ 53"
      using m by (metis of_int_abs of_int_less_numeral_power_cancel_iff)
    then show ?thesis by (intro mult_strict_right_mono) auto
  qed
  also have "\<dots> = 2 powr (of_int (j + 53))"
    by (simp add: powr_add powr_numeral)
  finally have "2 powr of_int e < (2::real) powr (of_int (j + 53))" .
  then have "of_int e < (of_int (j + 53) :: real)"
    by (subst (asm) powr_less_cancel_iff) simp_all
  then have ej: "e \<le> j + 52" by linarith
  define d where "d = nat (j + 52 - e)"
  have "x / u = of_int m * 2 powr (of_int j - (of_int e - 52))"
    unfolding x u_def by (simp add: powr_diff)
  also have "of_int j - (of_int e - 52) = (real d)"
    using ej by (simp add: d_def)
  also have "of_int m * 2 powr (real d) = of_int (m * 2 ^ d)"
    by (simp add: powr_realpow)
  finally have q: "x / u = of_int (m * 2 ^ d)" .
  have r: "round_half_even (x / u) = m * 2 ^ d"
    unfolding q by (rule round_half_even_of_int)
  have xu: "u * of_int (m * 2 ^ d) = x"
    using q upos by (simp add: field_simps)
  have "dbl x = u * of_int (round_half_even (x / u))"
    using x0 unfolding dbl_def e_def u_def by (simp add: Let_def)
  then show ?thesis
    unfolding r xu .
qed

lemma dbl_of_double: "is_double x \<Longrightarrow> dbl x = x"
  unfolding is_double_def using dbl_exact by blast

lemma dbl_of_int: "\<bar>n\<bar> < 2 ^ 53 \<Longrightarrow> dbl (of_int n) = of_int n"
  using dbl_exact [of "of_int n" n 0] by simp


lemma dbl_zero [simp]: "dbl 0 = 0"
  by (simp add: dbl_def)

lemma Math_pow_accurate:
  "1 \<le> x \<Longrightarrow> \<bar>Math_pow engine x 1.5 - x powr 1.5\<bar> \<le> x powr 1.5 / 2 ^ 52"
  using Rep_pow_impl [of engine] by (simp add: Math_pow_def pow_accurate_def)

lemma correctly_rounded_pow_eq: "Math_pow correctly_rounded_pow x y = dbl (x powr y)"
proof -
  have "pow_accurate (\<lambda>x y. dbl (x powr y))"
    unfolding pow_accurate_def
  proof (intro allI impI)
    fix x :: real assume "1 \<le> x"
    have "\<bar>dbl (x powr 1.5) - x powr 1.5\<bar> \<le> \<bar>x powr 1.5\<bar> / 2 ^ 53"
      by (rule dbl_error)
    also have "\<dots> \<le> x powr 1.5 / 2 ^ 52"
      by (simp add: field_simps)
    finally show "\<bar>dbl (x powr 1.5) - x powr 1.5\<bar> \<le> x powr 1.5 / 2 ^ 52" .
  qed
  then show ?thesis
    by (simp add: Math_pow_def correctly_rounded_pow_def Abs_pow_impl_inverse)
qed

text \<open>The XP curve: the square of \<open>100 * level^1.5\<close> is the integer \<open>10000 * level^3\<close>,
  so the place of the exact value among the half-integers is decided by integer
  comparisons.  The double the code rounds lies within the relative error \<open>2^-51\<close> of it.\<close>

lemma powr_15_sq:
  fixes x :: real
  assumes "0 < x"
  shows "(x powr 1.5)\<^sup>2 = x ^ 3"
proof -
  have "(x powr 1.5)\<^sup>2 = (x powr 1.5) powr 2"
    by (simp add: powr_numeral)
  also have "\<dots> = x powr 3"
    by (simp add: powr_powr)
  also have "\<dots> = x ^ 3"
    using assms by (simp add: powr_numeral)
  finally show ?thesis .
qed

lemma xp_curve_sq:
  assumes "1 \<le> n"
  shows "(100 * (real_of_int n) powr 1.5)\<^sup>2 = 10000 * (real_of_int n) ^ 3"
  using powr_15_sq [of "real_of_int n"] assms by (simp add: power_mult_distrib)

lemma xp_curve_ge:
  assumes "1 \<le> n"
  shows "100 * real_of_int n \<le> 100 * (real_of_int n) powr 1.5"
proof -
  have "real_of_int n powr 1 \<le> real_of_int n powr 1.5"
    using assms by (intro powr_mono) auto
  then show ?thesis using assms by simp
qed

lemma xp_double_error:
  assumes "1 \<le> n"
  shows "\<bar>dbl (100 * Math_pow engine (real_of_int n) 1.5) - 100 * (real_of_int n) powr 1.5\<bar>
         \<le> 100 * (real_of_int n) powr 1.5 / 2 ^ 51"
proof -
  define X where "X = (real_of_int n) powr 1.5"
  define p where "p = Math_pow engine (real_of_int n) 1.5"
  have X: "0 < X" using assms by (simp add: X_def)
  have p: "\<bar>p - X\<bar> \<le> X / 2 ^ 52"
    unfolding p_def X_def using assms by (intro Math_pow_accurate) simp
  have "\<bar>p\<bar> \<le> X + X / 2 ^ 52" using p X by linarith
  then have p2: "\<bar>100 * p\<bar> \<le> 200 * X" using X by (simp add: field_simps abs_mult)
  have "\<bar>dbl (100 * p) - 100 * p\<bar> \<le> \<bar>100 * p\<bar> / 2 ^ 53"
    by (rule dbl_error)
  also have "\<dots> \<le> 200 * X / 2 ^ 53"
    using p2 by (simp add: divide_right_mono)
  finally have d: "\<bar>dbl (100 * p) - 100 * p\<bar> \<le> 100 * X / 2 ^ 52" by simp
  have "\<bar>100 * p - 100 * X\<bar> \<le> 100 * X / 2 ^ 52"
    using p by (simp add: field_simps abs_if split: if_splits)
  then have "\<bar>dbl (100 * p) - 100 * X\<bar> \<le> 100 * X / 2 ^ 52 + 100 * X / 2 ^ 52"
    using d by linarith
  then show ?thesis
    unfolding X_def p_def by (simp add: field_simps)
qed

lemma calculateXpRequired_bounds:
  assumes "1 \<le> n"
  shows "\<exists>x. calculateXpRequired engine n = Inr x
           \<and> \<bar>real_of_int x - 100 * (real_of_int n) powr 1.5\<bar>
              \<le> 1 / 2 + 100 * (real_of_int n) powr 1.5 / 2 ^ 51"
proof -
  define Y where "Y = dbl (100 * Math_pow engine (real_of_int n) 1.5)"
  have run: "calculateXpRequired engine n = Inr (round Y)"
    using assms by (simp add: calculateXpRequired_def Y_def)
  have "\<bar>real_of_int (round Y) - Y\<bar> \<le> 1 / 2"
    by (rule of_int_round_abs_le)
  moreover have "\<bar>Y - 100 * (real_of_int n) powr 1.5\<bar> \<le> 100 * (real_of_int n) powr 1.5 / 2 ^ 51"
    unfolding Y_def by (rule xp_double_error [OF assms])
  ultimately have "\<bar>real_of_int (round Y) - 100 * (real_of_int n) powr 1.5\<bar>
      \<le> 1 / 2 + 100 * (real_of_int n) powr 1.5 / 2 ^ 51"
    by linarith
  then show ?thesis using run by blast
qed

lemma calculateXpRequired_Inr:
  "1 \<le> n \<Longrightarrow> \<exists>x. calculateXpRequired engine n = Inr x"
  by (simp add: calculateXpRequired_def)

lemma calculateXpRequired_ge:
  assumes "calculateXpRequired engine n = Inr x"
  shows "n \<le> x"
proof -
  have n: "1 \<le> n"
    using assms by (auto simp: calculateXpRequired_def split: if_splits)
  define X where "X = 100 * (real_of_int n) powr 1.5"
  have b: "\<bar>real_of_int x - X\<bar> \<le> 1 / 2 + X / 2 ^ 51"
    using calculateXpRequired_bounds [OF n, of engine] assms by (auto simp: X_def)
  have ge: "100 * real_of_int n \<le> X"
    unfolding X_def by (rule xp_curve_ge [OF n])
  have "X / 2 ^ 51 \<le> X / 2"
    using ge n by (intro divide_left_mono) auto
  then have "X / 2 - 1 / 2 \<le> real_of_int x"
    using b by linarith
  then have "real_of_int n \<le> real_of_int x"
    using ge n by linarith
  then show ?thesis by simp
qed

termination calculateLevel_loop
proof (relation "measure (\<lambda>(engine, txp, lvl). nat (txp - lvl))")
  show "wf (measure (\<lambda>(engine, txp, lvl). nat (txp - lvl)))"
    by simp
next
  fix engine :: pow_impl and txp lvl x2 :: int
  assume req: "calculateXpRequired engine (lvl + 1) = Inr x2" and ge: "\<not> txp < x2"
  have "lvl + 1 \<le> x2"
    using req by (rule calculateXpRequired_ge)
  then show "((engine, txp, lvl + 1), (engine, txp, lvl))
             \<in> measure (\<lambda>(engine, txp, lvl). nat (txp - lvl))"
    using ge by simp
qed

text \<open>The requirement of a level is the rounded exact value wherever that value keeps
  the distance \<open>2^-51\<close> of itself from the two half-integers around it.\<close>

lemma calculateXpRequired_eqI:
  assumes n: "1 \<le> n" and r: "1 \<le> r"
    and lo: "(2 * r - 1)\<^sup>2 * (2 ^ 51)\<^sup>2 \<le> 40000 * n ^ 3 * (2 ^ 51 - 1)\<^sup>2"
    and hi: "40000 * n ^ 3 * (2 ^ 51 + 1)\<^sup>2 < (2 * r + 1)\<^sup>2 * (2 ^ 51)\<^sup>2"
  shows "calculateXpRequired engine n = Inr r"
proof -
  define X where "X = 100 * (real_of_int n) powr 1.5"
  define Y where "Y = dbl (100 * Math_pow engine (real_of_int n) 1.5)"
  define K :: int where "K = 2 ^ 51"
  have K: "0 < real_of_int K" "real_of_int K = 2 ^ 51" by (simp_all add: K_def)
  have X0: "0 \<le> X" by (simp add: X_def)
  have sq: "X\<^sup>2 = 10000 * (real_of_int n) ^ 3"
    unfolding X_def by (rule xp_curve_sq [OF n])
  have err: "\<bar>Y - X\<bar> \<le> X / real_of_int K"
    unfolding X_def Y_def K(2) by (rule xp_double_error [OF n])
  have "(2 * r - 1)\<^sup>2 * K\<^sup>2 \<le> 40000 * n ^ 3 * (K - 1)\<^sup>2"
    using lo by (simp add: K_def)
  then have "real_of_int ((2 * r - 1)\<^sup>2 * K\<^sup>2) \<le> real_of_int (40000 * n ^ 3 * (K - 1)\<^sup>2)"
    by (rule of_int_le_iff [THEN iffD2])
  then have "((2 * real_of_int r - 1) * real_of_int K)\<^sup>2 \<le> 4 * X\<^sup>2 * (real_of_int K - 1)\<^sup>2"
    unfolding sq by (simp add: power_mult_distrib)
  then have "((2 * real_of_int r - 1) * real_of_int K)\<^sup>2 \<le> (2 * X * (real_of_int K - 1))\<^sup>2"
    by (simp add: power_mult_distrib)
  then have "(2 * real_of_int r - 1) * real_of_int K \<le> 2 * X * (real_of_int K - 1)"
    by (rule power2_le_imp_le) (use X0 K in simp)
  then have a: "real_of_int r - 1 / 2 \<le> X - X / real_of_int K"
    using K(1) by (simp add: field_simps)
  have "40000 * n ^ 3 * (K + 1)\<^sup>2 < (2 * r + 1)\<^sup>2 * K\<^sup>2"
    using hi by (simp add: K_def)
  then have "real_of_int (40000 * n ^ 3 * (K + 1)\<^sup>2) < real_of_int ((2 * r + 1)\<^sup>2 * K\<^sup>2)"
    by (rule of_int_less_iff [THEN iffD2])
  then have "4 * X\<^sup>2 * (real_of_int K + 1)\<^sup>2 < ((2 * real_of_int r + 1) * real_of_int K)\<^sup>2"
    unfolding sq by (simp add: power_mult_distrib)
  then have "(2 * X * (real_of_int K + 1))\<^sup>2 < ((2 * real_of_int r + 1) * real_of_int K)\<^sup>2"
    by (simp add: power_mult_distrib)
  then have "2 * X * (real_of_int K + 1) < (2 * real_of_int r + 1) * real_of_int K"
    by (rule power2_less_imp_less) (use r K in simp)
  then have b: "X + X / real_of_int K < real_of_int r + 1 / 2"
    using K(1) by (simp add: field_simps)
  have "round Y = r"
    unfolding round_def using a b err by (intro floor_unique) (auto simp: abs_le_iff)
  then show ?thesis
    using n by (simp add: calculateXpRequired_def Y_def)
qed

lemma calculateXpRequired_values:
  "calculateXpRequired engine 1 = Inr 100" "calculateXpRequired engine 2 = Inr 283"
  "calculateXpRequired engine 3 = Inr 520" "calculateXpRequired engine 4 = Inr 800"
  "calculateXpRequired engine 5 = Inr 1118" "calculateXpRequired engine 6 = Inr 1470"
  "calculateXpRequired engine 20 = Inr 8944"
  by (rule calculateXpRequired_eqI; simp)+

lemma powr_15_step:
  fixes a :: real
  assumes "1 \<le> a"
  shows "a powr 1.5 + 1 \<le> (a + 1) powr 1.5"
proof -
  have split: "x powr 1.5 = x * x powr (1 / 2)" if "0 < x" for x :: real
  proof -
    have "x powr 1.5 = x powr (1 + 1 / 2)" by simp
    also have "\<dots> = x powr 1 * x powr (1 / 2)" by (rule powr_add)
    finally show ?thesis using that by simp
  qed
  have s1: "1 \<le> a powr (1 / 2)"
    using assms by (simp add: ge_one_powr_ge_zero)
  have s2: "a powr (1 / 2) \<le> (a + 1) powr (1 / 2)"
    using assms by (intro powr_mono2) auto
  have "a powr 1.5 + 1 \<le> a * a powr (1 / 2) + a powr (1 / 2)"
    using split [of a] assms s1 by linarith
  also have "\<dots> = (a + 1) * a powr (1 / 2)"
    by (simp add: field_simps)
  also have "\<dots> \<le> (a + 1) * (a + 1) powr (1 / 2)"
    using s2 assms by (intro mult_left_mono) auto
  also have "\<dots> = (a + 1) powr 1.5"
    using split [of "a + 1"] assms by linarith
  finally show ?thesis .
qed

lemma powr_15_bound:
  fixes b :: real
  assumes "1 \<le> b" "b \<le> 2 ^ 32"
  shows "b powr 1.5 \<le> 2 ^ 48"
proof -
  have "b powr 1.5 \<le> (2 ^ 32) powr 1.5"
    using assms by (intro powr_mono2) auto
  moreover have "((2::real) ^ 32) powr 1.5 = 2 ^ 48"
  proof (rule power2_eq_imp_eq)
    show "(((2::real) ^ 32) powr 1.5)\<^sup>2 = (2 ^ 48)\<^sup>2"
      by (subst powr_15_sq) simp_all
  qed simp_all
  ultimately show ?thesis by simp
qed

text \<open>Up to level \<open>2^32\<close> the requirement does not decrease with the level: two levels
  are 100 XP apart on the exact curve, and the doubles are off by less.\<close>

lemma calculateXpRequired_mono:
  assumes "1 \<le> a" "a \<le> b" "b \<le> 2 ^ 32"
    and "calculateXpRequired engine a = Inr x" "calculateXpRequired engine b = Inr y"
  shows "x \<le> y"
proof (cases "a = b")
  case True
  then show ?thesis using assms by simp
next
  case False
  then have ab: "a + 1 \<le> b" using assms(2) by simp
  define Xa where "Xa = 100 * (real_of_int a) powr 1.5"
  define Xb where "Xb = 100 * (real_of_int b) powr 1.5"
  define Ya where "Ya = dbl (100 * Math_pow engine (real_of_int a) 1.5)"
  define Yb where "Yb = dbl (100 * Math_pow engine (real_of_int b) 1.5)"
  have b1: "1 \<le> b" using assms(1,2) by simp
  have ea: "\<bar>Ya - Xa\<bar> \<le> Xa / 2 ^ 51"
    unfolding Xa_def Ya_def by (rule xp_double_error [OF assms(1)])
  have eb: "\<bar>Yb - Xb\<bar> \<le> Xb / 2 ^ 51"
    unfolding Xb_def Yb_def by (rule xp_double_error [OF b1])
  have "(real_of_int a) powr 1.5 + 1 \<le> (real_of_int a + 1) powr 1.5"
    using assms(1) by (intro powr_15_step) simp
  also have "\<dots> \<le> (real_of_int b) powr 1.5"
    using ab assms(1) by (intro powr_mono2) auto
  finally have gap: "Xa + 100 \<le> Xb"
    by (simp add: Xa_def Xb_def)
  have "(real_of_int b) powr 1.5 \<le> 2 ^ 48"
    using b1 assms(3) by (intro powr_15_bound) auto
  then have ub: "Xb \<le> 100 * 2 ^ 48"
    by (simp add: Xb_def)
  have Xa0: "0 \<le> Xa" by (simp add: Xa_def)
  have "Xb / 2 ^ 51 \<le> 100 * 2 ^ 48 / 2 ^ 51"
    using ub by (rule divide_right_mono) simp
  then have sb: "Xb / 2 ^ 51 \<le> 25 / 2"
    by simp
  have "Xa / 2 ^ 51 \<le> Xb / 2 ^ 51"
    using gap by (simp add: divide_right_mono)
  then have sa: "Xa / 2 ^ 51 \<le> 25 / 2"
    using sb by linarith
  have "Ya \<le> Yb"
    using ea eb gap sa sb by linarith
  then have "round Ya \<le> round Yb"
    by (rule round_mono)
  then show ?thesis
    using assms(1,4,5) b1 by (simp add: calculateXpRequired_def Ya_def Yb_def)
qed

text \<open>The loop from level \<open>lvl\<close> stops at the first level whose successor costs more
  than the XP at hand; every level it passed was affordable.\<close>

lemma calculateLevel_loop_spec:
  "1 \<le> lvl \<Longrightarrow>
   \<exists>L nxt. calculateLevel_loop engine txp lvl = Inr L \<and> lvl \<le> L
      \<and> calculateXpRequired engine (L + 1) = Inr nxt \<and> txp < nxt
      \<and> (\<forall>k x. lvl < k \<and> k \<le> L \<and> calculateXpRequired engine k = Inr x \<longrightarrow> x \<le> txp)"
proof (induction engine txp lvl rule: calculateLevel_loop.induct)
  case (1 engine txp lvl)
  obtain b where b: "calculateXpRequired engine (lvl + 1) = Inr b"
    using calculateXpRequired_Inr [of "lvl + 1"] "1.prems" by auto
  show ?case
  proof (cases "txp < b")
    case True
    then have "calculateLevel_loop engine txp lvl = Inr lvl"
      using b by (subst calculateLevel_loop.simps) simp
    then show ?thesis using b True by auto
  next
    case False
    then have step: "calculateLevel_loop engine txp lvl = calculateLevel_loop engine txp (lvl + 1)"
      using b by (subst calculateLevel_loop.simps) simp
    obtain L nxt where L: "calculateLevel_loop engine txp (lvl + 1) = Inr L" "lvl + 1 \<le> L"
        "calculateXpRequired engine (L + 1) = Inr nxt" "txp < nxt"
        "\<forall>k x. lvl + 1 < k \<and> k \<le> L \<and> calculateXpRequired engine k = Inr x \<longrightarrow> x \<le> txp"
      using "1.IH" [OF b False] "1.prems" by auto
    have "\<forall>k x. lvl < k \<and> k \<le> L \<and> calculateXpRequired engine k = Inr x \<longrightarrow> x \<le> txp"
    proof (intro allI impI)
      fix k x assume k: "lvl < k \<and> k \<le> L \<and> calculateXpRequired engine k = Inr x"
      show "x \<le> txp"
      proof (cases "k = lvl + 1")
        case True
        then show ?thesis using k b False by simp
      next
        case False
        then have "lvl + 1 < k" using k by simp
        then show ?thesis using k L(5) by blast
      qed
    qed
    then show ?thesis using step L by auto
  qed
qed

lemma calculateLevel_total:
  "\<exists>L. calculateLevel engine txp = Inr L \<and> 1 \<le> L \<and> L \<le> max 1 txp"
proof -
  obtain L nxt where L: "calculateLevel_loop engine txp 1 = Inr L" "1 \<le> L"
      "\<forall>k x. 1 < k \<and> k \<le> L \<and> calculateXpRequired engine k = Inr x \<longrightarrow> x \<le> txp"
    using calculateLevel_loop_spec [of 1 engine txp] by auto
  obtain xL where xL: "calculateXpRequired engine L = Inr xL"
    using calculateXpRequired_Inr [OF L(2)] by blast
  have "L \<le> max 1 txp"
  proof (cases "L = 1")
    case True
    then show ?thesis by simp
  next
    case False
    then have "1 < L" using L(2) by simp
    then have "xL \<le> txp" using L(3) xL by blast
    then show ?thesis using calculateXpRequired_ge [OF xL] by simp
  qed
  then show ?thesis
    unfolding calculateLevel_def using L(1,2) by blast
qed

lemma calculateLevel_is_largest:
  assumes "txp \<le> 2147483647"
  shows "\<exists>L. calculateLevel engine txp = Inr L \<and> 1 \<le> L
      \<and> (\<forall>l x. 1 \<le> l \<and> calculateXpRequired engine l = Inr x \<and> x \<le> txp \<longrightarrow> l \<le> L)
      \<and> (100 \<le> txp \<longrightarrow> (\<exists>x. calculateXpRequired engine L = Inr x \<and> x \<le> txp))
      \<and> (txp < 100 \<longrightarrow> L = 1)"
proof -
  obtain L nxt where L: "calculateLevel_loop engine txp 1 = Inr L" "1 \<le> L"
      "calculateXpRequired engine (L + 1) = Inr nxt" "txp < nxt"
      "\<forall>k x. 1 < k \<and> k \<le> L \<and> calculateXpRequired engine k = Inr x \<longrightarrow> x \<le> txp"
    using calculateLevel_loop_spec [of 1 engine txp] by auto
  have one: "calculateXpRequired engine 1 = Inr 100"
    by (rule calculateXpRequired_values)
  have largest: "l \<le> L" if l: "1 \<le> l" "calculateXpRequired engine l = Inr x" "x \<le> txp" for l x
  proof (rule ccontr)
    assume "\<not> l \<le> L"
    then have up: "L + 1 \<le> l" by simp
    have "l \<le> x" using l(2) by (rule calculateXpRequired_ge)
    then have "l \<le> 2 ^ 32" using l(3) assms by simp
    then have "nxt \<le> x"
      using calculateXpRequired_mono [of "L + 1" l engine nxt x] L(2,3) l(2) up by simp
    then show False using L(4) l(3) by simp
  qed
  obtain xL where xL: "calculateXpRequired engine L = Inr xL"
    using calculateXpRequired_Inr [OF L(2)] by blast
  have reached: "xL \<le> txp" if "100 \<le> txp"
  proof (cases "L = 1")
    case True
    then show ?thesis using xL one that by simp
  next
    case False
    then have "1 < L" using L(2) by simp
    then show ?thesis using L(5) xL by blast
  qed
  have floor1: "L = 1" if "txp < 100"
  proof (rule ccontr)
    assume "L \<noteq> 1"
    then have "1 < L" using L(2) by simp
    then have le: "xL \<le> txp" using L(5) xL by blast
    have "L \<le> 2 ^ 32" using calculateXpRequired_ge [OF xL] le assms by simp
    then have "100 \<le> xL"
      using calculateXpRequired_mono [of 1 L engine 100 xL] one xL L(2) by simp
    then show False using that le by simp
  qed
  show ?thesis
    unfolding calculateLevel_def using L(1,2) largest xL reached floor1 by blast
qed

lemma calculateLevel_600: "calculateLevel engine 600 = Inr 3"
  unfolding calculateLevel_def
  by (simp add: calculateLevel_loop.simps [of engine 600] calculateXpRequired_values)

lemma calculateLevel_1118: "calculateLevel engine 1118 = Inr 5"
  unfolding calculateLevel_def
  by (simp add: calculateLevel_loop.simps [of engine 1118] calculateXpRequired_values)

text \<open>Level 455628 with the engine that rounds the power correctly.\<close>

lemma pow_455628: "dbl ((455628::real) powr 1.5) = 5159831312877486 / 2 ^ 24"
proof -
  define X :: real where "X = 455628 powr 1.5"
  define u :: real where "u = 1 / 2 ^ 24"
  have X0: "0 \<le> X" by (simp add: X_def)
  have sq: "X\<^sup>2 = 455628 ^ 3"
    unfolding X_def by (rule powr_15_sq) simp
  have u: "u = 2 powr of_int (- 24)"
    by (simp add: u_def powr_minus_divide)
  have lo: "2 ^ 52 * u \<le> \<bar>X\<bar>"
  proof -
    have "2 ^ 52 * u \<le> X"
      by (rule power2_le_imp_le) (simp_all add: sq u_def X0)
    then show ?thesis by simp
  qed
  have hi: "\<bar>X\<bar> < 2 ^ 53 * u"
  proof -
    have "X < 2 ^ 53 * u"
      by (rule power2_less_imp_less) (simp_all add: sq u_def)
    then show ?thesis using X0 by simp
  qed
  have "((5159831312877486 - 1 / 2) * u)\<^sup>2 < X\<^sup>2"
    unfolding sq u_def by (simp add: power2_eq_square field_simps)
  then have a: "(5159831312877486 - 1 / 2) * u < X"
    by (rule power2_less_imp_less) (rule X0)
  have "X\<^sup>2 < ((5159831312877486 + 1 / 2) * u)\<^sup>2"
    unfolding sq u_def by (simp add: power2_eq_square field_simps)
  then have b: "X < (5159831312877486 + 1 / 2) * u"
    by (rule power2_less_imp_less) (simp add: u_def)
  have "5159831312877486 * u - u / 2 < X" "X < 5159831312877486 * u + u / 2"
    using a b by (simp_all add: algebra_simps)
  then have "\<bar>X - 5159831312877486 * u\<bar> < u / 2"
    by linarith
  then have near: "\<bar>X - of_int 5159831312877486 * u\<bar> < u / 2"
    by simp
  have "dbl X = of_int 5159831312877486 * u"
    by (rule dbl_eqI [OF u lo hi near])
  then show ?thesis
    by (simp add: X_def u_def)
qed

lemma calculateXpRequired_455628:
  "calculateXpRequired correctly_rounded_pow 455628 = Inr 30754991251"
proof -
  define u :: real where "u = 1 / 2 ^ 18"
  define x :: real where "x = 100 * (5159831312877486 / 2 ^ 24)"
  have u: "u = 2 powr of_int (- 18)"
    by (simp add: u_def powr_minus_divide)
  have "dbl x = of_int 8062236426371072 * u"
    by (rule dbl_eqI [OF u]) (simp_all add: x_def u_def abs_less_iff)
  also have "\<dots> = 61509982501 / 2"
    by (simp add: u_def)
  finally have y: "dbl (100 * (5159831312877486 / 2 ^ 24)) = 61509982501 / 2"
    unfolding x_def .
  have r: "round ((61509982501::real) / 2) = 30754991251"
    unfolding round_def by (intro floor_unique) simp_all
  have "calculateXpRequired correctly_rounded_pow 455628
        = Inr (round (dbl (100 * dbl ((455628::real) powr 1.5))))"
    by (simp add: calculateXpRequired_def correctly_rounded_pow_eq)
  then show ?thesis
    unfolding pow_455628 y r .
qed

lemma round_sqrt_bounds:
  fixes y :: real and r :: int
  assumes y: "0 \<le> y" and r: "1 \<le> r"
    and lo: "(2 * real_of_int r - 1)\<^sup>2 \<le> 4 * y\<^sup>2"
    and hi: "4 * y\<^sup>2 < (2 * real_of_int r + 1)\<^sup>2"
  shows "round y = r"
proof -
  have a: "2 * real_of_int r - 1 \<le> 2 * y"
  proof (rule power2_le_imp_le)
    show "(2 * real_of_int r - 1)\<^sup>2 \<le> (2 * y)\<^sup>2"
      using lo by (simp add: power_mult_distrib)
    show "0 \<le> 2 * y" using y by simp
  qed
  have b: "2 * y < 2 * real_of_int r + 1"
  proof (rule power2_less_imp_less)
    show "(2 * y)\<^sup>2 < (2 * real_of_int r + 1)\<^sup>2"
      using hi by (simp add: power_mult_distrib)
    show "0 \<le> 2 * real_of_int r + 1" using r by simp
  qed
  show ?thesis
    unfolding round_def using a b by (intro floor_unique) auto
qed

lemma xp_curve_455628: "round (100 * (455628::real) powr 1.5) = 30754991250"
proof (rule round_sqrt_bounds)
  have sq: "(100 * (455628::real) powr 1.5)\<^sup>2 = 10000 * 455628 ^ 3"
    using xp_curve_sq [of 455628] by simp
  show "(2 * real_of_int 30754991250 - 1)\<^sup>2 \<le> 4 * (100 * (455628::real) powr 1.5)\<^sup>2"
    unfolding sq by simp
  show "4 * (100 * (455628::real) powr 1.5)\<^sup>2 < (2 * real_of_int 30754991250 + 1)\<^sup>2"
    unfolding sq by simp
qed simp_all

lemma find_replace:
  "find (\<lambda>q. f q = k) xs = Some a \<Longrightarrow> f b = k \<Longrightarrow>
   find (\<lambda>q. f q = k) (map (\<lambda>q. if f q = f b then b else q) xs) = Some b"
  by (induction xs) (auto split: if_splits)

text \<open>The clamp of the stat service: clamping the rounded value is rounding the clamped
  value, and the result is a stat column value.\<close>

lemma clamp_round:
  fixes v :: real
  shows "max 0 (min 100 (round v)) = round (max 0 (min 100 v))"
proof -
  consider "v \<le> 0" | "0 < v \<and> v < 100" | "100 \<le> v" by linarith
  then show ?thesis
  proof cases
    case 1
    then have "round v \<le> round (0::real)" by (rule round_mono)
    then show ?thesis using 1 by (simp add: max_def min_def)
  next
    case 2
    have "round (0::real) \<le> round v"
      using 2 by (intro round_mono) simp
    moreover have "round v \<le> round (100::real)"
      using 2 by (intro round_mono) simp
    ultimately show ?thesis using 2 by (simp add: max_def min_def)
  next
    case 3
    then have "round (100::real) \<le> round v" by (rule round_mono)
    then show ?thesis using 3 by (simp add: max_def min_def)
  qed
qed

lemma delta_or_0_not_NaN: "delta_or_0 changes s \<noteq> NaN"
  by (simp add: delta_or_0_def split: option.splits number.splits)

lemma stat_column_int:
  "0 \<le> k \<Longrightarrow> k \<le> 100 \<Longrightarrow> stat_column (Finite (real_of_int k)) = Some k"
  by (simp add: stat_column_def)

lemma clampStat_Finite:
  "clampStat (Finite r) = Finite (real_of_int (max 0 (min 100 (round r))))"
  by (simp add: clampStat_def max_def min_def)

lemma updated_stat:
  "stat_column (clampStat (js_add (Finite (real_of_int n)) (delta_or_0 changes s)))
   = Some (case delta_or_0 changes s of
             Finite d \<Rightarrow> max 0 (min 100 (round (dbl (real_of_int n + d))))
           | PosInf \<Rightarrow> 100 | NegInf \<Rightarrow> 0 | NaN \<Rightarrow> 0)"
proof (cases "delta_or_0 changes s")
  case (Finite d)
  then show ?thesis
    by (simp add: clampStat_Finite stat_column_int)
next
  case PosInf
  then show ?thesis by (simp add: clampStat_def stat_column_def)
next
  case NegInf
  then show ?thesis by (simp add: clampStat_def stat_column_def)
next
  case NaN
  then show ?thesis using delta_or_0_not_NaN [of changes s] by simp
qed

lemma applyStatChange_result:
  assumes "findStats playerId db = Some old"
  shows "\<exists>new. applyStatChange playerId changes db = (Inr new, updateStatsRow new db)
           \<and> findStats playerId (updateStatsRow new db) = Some new
           \<and> stats_playerId new = playerId
           \<and> (\<forall>s. stat_value s new =
                    (case delta_or_0 changes s of
                       Finite d \<Rightarrow> max 0 (min 100 (round (dbl (real_of_int (stat_value s old) + d))))
                     | PosInf \<Rightarrow> 100 | NegInf \<Rightarrow> 0 | NaN \<Rightarrow> 0))"
proof -
  define k where "k = (\<lambda>s. case delta_or_0 changes s of
                       Finite d \<Rightarrow> max 0 (min 100 (round (dbl (real_of_int (stat_value s old) + d))))
                     | PosInf \<Rightarrow> 100 | NegInf \<Rightarrow> 0 | NaN \<Rightarrow> (0::int))"
  define new where "new = old
     \<lparr>physical := k Physical, intelligence := k Intelligence, discipline := k Discipline,
      charisma := k Charisma, confidence := k Confidence, creativity := k Creativity\<rparr>"
  have col: "stat_column (clampStat (js_add (Finite (real_of_int (stat_value s old)))
                                          (delta_or_0 changes s))) = Some (k s)" for s
    unfolding k_def by (rule updated_stat)
  have pid: "stats_playerId old = playerId"
    using assms by (auto simp: findStats_def dest: find_Some_iff [THEN iffD1])
  have key: "stats_playerId new = playerId"
    using pid by (simp add: new_def)
  have found: "findStats playerId (updateStatsRow new db) = Some new"
    using find_replace [of stats_playerId playerId "stats db" old new] assms key
    by (simp add: findStats_def updateStatsRow_def)
  have cols:
    "stat_column (clampStat (js_add (Finite (real_of_int (physical old)))
                                    (delta_or_0 changes Physical))) = Some (k Physical)"
    "stat_column (clampStat (js_add (Finite (real_of_int (intelligence old)))
                                    (delta_or_0 changes Intelligence))) = Some (k Intelligence)"
    "stat_column (clampStat (js_add (Finite (real_of_int (discipline old)))
                                    (delta_or_0 changes Discipline))) = Some (k Discipline)"
    "stat_column (clampStat (js_add (Finite (real_of_int (charisma old)))
                                    (delta_or_0 changes Charisma))) = Some (k Charisma)"
    "stat_column (clampStat (js_add (Finite (real_of_int (confidence old)))
                                    (delta_or_0 changes Confidence))) = Some (k Confidence)"
    "stat_column (clampStat (js_add (Finite (real_of_int (creativity old)))
                                    (delta_or_0 changes Creativity))) = Some (k Creativity)"
    using col [of Physical] col [of Intelligence] col [of Discipline] col [of Charisma]
      col [of Confidence] col [of Creativity]
    by simp_all
  have run: "applyStatChange playerId changes db = (Inr new, updateStatsRow new db)"
    using assms found key
    by (simp add: applyStatChange_def Let_def cols reloadStats_def new_def [symmetric])
  have val: "stat_value s new = k s" for s
    by (cases s) (simp_all add: new_def)
  show ?thesis
    using run found key val unfolding k_def by blast
qed

lemma is_double_int: "\<bar>n\<bar> < 2 ^ 53 \<Longrightarrow> is_double (real_of_int n)"
  unfolding is_double_def by (rule exI [of _ n], rule exI [of _ 0]) simp

lemma is_double_half_int: "\<bar>n\<bar> < 2 ^ 53 \<Longrightarrow> is_double (real_of_int n / 2)"
  unfolding is_double_def by (rule exI [of _ n], rule exI [of _ "- 1"]) (simp add: powr_minus_divide)

text \<open>The sum of a stat of 50 and the double below one half is rounded up to 50.5.\<close>

lemma is_double_below_half: "is_double (1 / 2 - 1 / 2 ^ 54)"
  unfolding is_double_def
  by (rule exI [of _ "2 ^ 53 - 1"], rule exI [of _ "- 54"]) (simp add: powr_minus_divide)

lemma dbl_50_below_half: "dbl (50 + (1 / 2 - 1 / 2 ^ 54)) = 101 / 2"
proof -
  define u :: real where "u = 1 / 2 ^ 47"
  have u: "u = 2 powr of_int (- 47)"
    by (simp add: u_def powr_minus_divide)
  have "dbl (50 + (1 / 2 - 1 / 2 ^ 54)) = of_int (101 * 2 ^ 46) * u"
    by (rule dbl_eqI [OF u]) (simp_all add: u_def abs_less_iff)
  then show ?thesis
    by (simp add: u_def)
qed

text \<open>A delta of at most a quarter, itself rounded to a double, leaves a stat where it
  is: the daily decay rates are such deltas.\<close>

lemma small_delta_rounds_back:
  assumes "0 \<le> n" "n \<le> 100" "\<bar>d\<bar> \<le> 1 / 4"
  shows "round (dbl (real_of_int n + dbl d)) = n"
proof -
  have "\<bar>dbl d - d\<bar> \<le> \<bar>d\<bar> / 2 ^ 53"
    by (rule dbl_error)
  also have "\<dots> \<le> (1 / 4) / 2 ^ 53"
    using assms(3) by (rule divide_right_mono) simp
  also have "\<dots> \<le> 1 / 100"
    by simp
  finally have d: "\<bar>dbl d\<bar> \<le> 26 / 100"
    using assms(3) by linarith
  define x where "x = real_of_int n + dbl d"
  have n: "0 \<le> real_of_int n" "real_of_int n \<le> 100"
    using assms(1,2) by simp_all
  have x: "\<bar>x\<bar> \<le> 101" "\<bar>x - real_of_int n\<bar> \<le> 26 / 100"
    unfolding x_def using d n by linarith+
  have "\<bar>dbl x - x\<bar> \<le> \<bar>x\<bar> / 2 ^ 53"
    by (rule dbl_error)
  also have "\<dots> \<le> 101 / 2 ^ 53"
    using x(1) by (rule divide_right_mono) simp
  finally have "\<bar>dbl x - x\<bar> \<le> 1 / 100"
    by simp
  then have "\<bar>dbl x - real_of_int n\<bar> < 1 / 2"
    using x(2) by linarith
  then have "round (dbl x) = n"
    unfolding round_def by (intro floor_unique; linarith)
  then show ?thesis by (simp add: x_def)
qed

lemma decay_rounds_back:
  assumes st: "stats d = [st]" and key: "stats_playerId st = playerId" and v: "valid_stats st"
  shows "applyStatChange playerId (\<lambda>s. Some (Finite (DAILY_DECAY_RATES s))) d = (Inr st, d)"
proof -
  let ?ch = "\<lambda>s. Some (Finite (DAILY_DECAY_RATES s))"
  have f: "findStats playerId d = Some st"
    using st key by (simp add: findStats_def)
  obtain new where new: "applyStatChange playerId ?ch d = (Inr new, updateStatsRow new d)"
      "stats_playerId new = playerId"
      "\<And>s. stat_value s new =
         (case delta_or_0 ?ch s of
            Finite x \<Rightarrow> max 0 (min 100 (round (dbl (real_of_int (stat_value s st) + x))))
          | PosInf \<Rightarrow> 100 | NegInf \<Rightarrow> 0 | NaN \<Rightarrow> 0)"
    using applyStatChange_result [OF f, of ?ch] by blast
  have rng: "0 \<le> stat_value s st \<and> stat_value s st \<le> 100" for s
    using v by (cases s) (simp_all add: valid_stats_def)
  have val: "stat_value s new = stat_value s st" for s
  proof -
    obtain r where r: "DAILY_DECAY_RATES s = dbl r" "\<bar>r\<bar> \<le> 1 / 4"
      by (cases s) (simp_all add: DAILY_DECAY_RATES_def)
    have "round (dbl (real_of_int (stat_value s st) + dbl r)) = stat_value s st"
      using rng [of s] r(2) by (intro small_delta_rounds_back) auto
    then show ?thesis
      using new(3) [of s] rng [of s] by (simp add: delta_or_0_def r(1))
  qed
  have "new = st"
    using val [of Physical] val [of Intelligence] val [of Discipline] val [of Charisma]
      val [of Confidence] val [of Creativity] new(2) key
    by (intro Stats.equality) simp_all
  moreover have "updateStatsRow st d = d"
    by (simp add: updateStatsRow_def st)
  ultimately show ?thesis using new(1) by simp
qed

lemma calculateRank_total: "\<exists>r. calculateRank txp = Inr r"
  by (simp add: calculateRank_def RANK_XP_THRESHOLDS_def)

lemma findPlayerByPk_id: "findPlayerByPk playerId db = Some p \<Longrightarrow> player_id p = playerId"
  by (auto simp: findPlayerByPk_def dest: find_Some_iff [THEN iffD1])

lemma findPlayerByPk_update:
  "findPlayerByPk playerId db = Some p \<Longrightarrow> player_id p' = playerId \<Longrightarrow>
   findPlayerByPk playerId (updatePlayerRow p' db) = Some p'"
  using find_replace [of player_id playerId "players db" p p']
  by (simp add: findPlayerByPk_def updatePlayerRow_def)

lemma updatePlayerRow_twice:
  "player_id p' = player_id p \<Longrightarrow>
   updatePlayerRow p' (updatePlayerRow p db) = updatePlayerRow p' db"
  by (simp add: updatePlayerRow_def comp_def)

lemma createPenalty_result:
  assumes "findPlayerByPk playerId db \<noteq> None" and "int32 sev"
  shows "\<exists>pen. createPenalty playerId rsn sev expires now db
                  = (Inr pen, db\<lparr>penalties := penalties db @ [pen]\<rparr>)
           \<and> penalty_playerId pen = playerId \<and> reason pen = rsn \<and> severity pen = sev
           \<and> expiresAt pen = expires \<and> penalty_createdAt pen = now"
  using assms by (simp add: createPenalty_def Let_def)

lemma createPenalty_out_of_range:
  "\<not> int32 sev \<Longrightarrow> createPenalty playerId rsn sev expires now db = (Inl IntegerOutOfRange, db)"
  by (simp add: createPenalty_def)

lemma findPlayerByPk_updateStatsRow [simp]:
  "findPlayerByPk playerId (updateStatsRow st db) = findPlayerByPk playerId db"
  by (simp add: findPlayerByPk_def updateStatsRow_def)

lemma findStats_penalties_update [simp]:
  "findStats playerId (db\<lparr>penalties := ps\<rparr>) = findStats playerId db"
  by (simp add: findStats_def)

lemma findPlayerByPk_penalties_update [simp]:
  "findPlayerByPk playerId (db\<lparr>penalties := ps\<rparr>) = findPlayerByPk playerId db"
  by (simp add: findPlayerByPk_def)



lemma addXp_zero:
  "findPlayerByPk playerId db = Some p \<Longrightarrow> addXp engine playerId 0 db = (Inr p, db)"
  by (simp add: addXp_def)

lemma addXp_out_of_range:
  "findPlayerByPk playerId db = Some p \<Longrightarrow> amount \<noteq> 0 \<Longrightarrow> \<not> int32 (totalXp p + amount) \<Longrightarrow>
   addXp engine playerId amount db = (Inl IntegerOutOfRange, db)"
  by (simp add: addXp_def Let_def)

lemma addXp_result:
  assumes "findPlayerByPk playerId db = Some p" and "amount \<noteq> 0"
    and "int32 (totalXp p + amount)"
  shows "\<exists>p'. addXp engine playerId amount db = (Inr p', updatePlayerRow p' db)
           \<and> findPlayerByPk playerId (updatePlayerRow p' db) = Some p'
           \<and> totalXp p' = totalXp p + amount
           \<and> calculateLevel engine (totalXp p + amount) = Inr (level p')
           \<and> calculateRank (totalXp p + amount) = Inr (rank p')
           \<and> p' = p\<lparr>totalXp := totalXp p + amount, level := level p', rank := rank p'\<rparr>"
proof -
  obtain L where L: "calculateLevel engine (totalXp p + amount) = Inr L" "1 \<le> L"
      "L \<le> max 1 (totalXp p + amount)"
    using calculateLevel_total by blast
  have L32: "int32 L"
    using L(2,3) assms(3) by (auto simp: int32_def max_def split: if_splits)
  obtain r where r: "calculateRank (totalXp p + amount) = Inr r"
    using calculateRank_total by blast
  define p1 where "p1 = p\<lparr>totalXp := totalXp p + amount\<rparr>"
  define p' where "p' = p1\<lparr>level := L, rank := r\<rparr>"
  have id1: "player_id p1 = playerId" "player_id p' = playerId"
    using findPlayerByPk_id [OF assms(1)] by (simp_all add: p1_def p'_def)
  have db2: "updatePlayerRow p' (updatePlayerRow p1 db) = updatePlayerRow p' db"
    using id1 by (intro updatePlayerRow_twice) simp
  have found: "findPlayerByPk playerId (updatePlayerRow p' db) = Some p'"
    using assms(1) id1(2) by (rule findPlayerByPk_update)
  have step1: "addXp engine playerId amount db
               = recalculateLevelAndRank engine p1 (updatePlayerRow p1 db)"
    using assms by (simp add: addXp_def Let_def p1_def)
  have t1: "totalXp p1 = totalXp p + amount"
    by (simp add: p1_def)
  have step2: "recalculateLevelAndRank engine p1 d =
      (reloadPlayer p1 (updatePlayerRow p' d), updatePlayerRow p' d)" for d
    using L(1) r L32 by (simp add: recalculateLevelAndRank_def Let_def p'_def t1)
  have step3: "reloadPlayer p1 (updatePlayerRow p' db) = Inr p'"
    using found id1 by (simp add: reloadPlayer_def)
  have "addXp engine playerId amount db = (Inr p', updatePlayerRow p' db)"
    unfolding step1 step2 db2 step3 ..
  moreover have "p' = p\<lparr>totalXp := totalXp p + amount, level := level p', rank := rank p'\<rparr>"
    by (simp add: p'_def p1_def)
  moreover have "totalXp p' = totalXp p + amount" "level p' = L" "rank p' = r"
    by (simp_all add: p'_def p1_def)
  ultimately show ?thesis
    using found L(1) r by auto
qed

lemma calculateXpRequired_tie_free:
  assumes n: "1 \<le> n"
    and lo: "real_of_int r - 1 / 2
             \<le> 100 * (real_of_int n) powr 1.5 - 100 * (real_of_int n) powr 1.5 / 2 ^ 51"
    and hi: "100 * (real_of_int n) powr 1.5 + 100 * (real_of_int n) powr 1.5 / 2 ^ 51
             < real_of_int r + 1 / 2"
  shows "calculateXpRequired engine n = Inr r"
proof -
  define Y where "Y = dbl (100 * Math_pow engine (real_of_int n) 1.5)"
  have "\<bar>Y - 100 * (real_of_int n) powr 1.5\<bar> \<le> 100 * (real_of_int n) powr 1.5 / 2 ^ 51"
    unfolding Y_def by (rule xp_double_error [OF n])
  then have "round Y = r"
    unfolding round_def using lo hi by (intro floor_unique; linarith)
  then show ?thesis
    using n by (simp add: calculateXpRequired_def Y_def)
qed

lemma applyStatChange_penalties:
  "applyStatChange playerId changes db = (r, db') \<Longrightarrow> penalties db' = penalties db"
  by (auto simp: applyStatChange_def Let_def updateStatsRow_def split: option.splits prod.splits)


section \<open>Stat engine\<close>

text \<open>
  C1, as stated, fails: the sum \<open>old + delta\<close> is a double.  For a stat of 50 and the
  delta \<open>1/2 - 2^-54\<close> (the double below one half), the sum is rounded up to 50.5 and 51
  is stored, while round(clamp(old + delta, 0, 100)) is 50.
\<close>

theorem applyStatChange_double_sum:
  "is_double (1 / 2 - 1 / 2 ^ 54)
   \<and> findStats 1 test_db = Some test_stats \<and> physical test_stats = 50
   \<and> (\<exists>new. applyStatChange 1 [Physical \<mapsto> Finite (1 / 2 - 1 / 2 ^ 54)] test_db
                 = (Inr new, updateStatsRow new test_db)
            \<and> findStats 1 (updateStatsRow new test_db) = Some new
            \<and> physical new = 51)
   \<and> round (max 0 (min 100 (real_of_int (physical test_stats) + (1 / 2 - 1 / 2 ^ 54)))) = (50::int)"
proof -
  let ?ch = "[Physical \<mapsto> Finite (1 / 2 - 1 / 2 ^ 54)] :: StatChanges"
  have h: "findStats 1 test_db = Some test_stats"
    by (simp add: findStats_def test_db_def test_stats_def)
  have p: "physical test_stats = 50"
    by (simp add: test_stats_def)
  obtain new where new: "applyStatChange 1 ?ch test_db = (Inr new, updateStatsRow new test_db)"
      "findStats 1 (updateStatsRow new test_db) = Some new"
      "\<And>s. stat_value s new =
         (case delta_or_0 ?ch s of
            Finite d \<Rightarrow> max 0 (min 100 (round (dbl (real_of_int (stat_value s test_stats) + d))))
          | PosInf \<Rightarrow> 100 | NegInf \<Rightarrow> 0 | NaN \<Rightarrow> 0)"
    using applyStatChange_result [OF h, of ?ch] by blast
  have r: "round ((101::real) / 2) = 51"
    unfolding round_def by (intro floor_unique) simp_all
  have "physical new = max 0 (min 100 (round (dbl (50 + (1 / 2 - 1 / 2 ^ 54)))))"
    using new(3) [of Physical] by (simp add: delta_or_0_def p)
  then have stored: "physical new = 51"
    unfolding dbl_50_below_half r by simp
  have exact: "round (max 0 (min 100 (real_of_int (physical test_stats) + (1 / 2 - 1 / 2 ^ 54)))) = (50::int)"
    unfolding p round_def by (intro floor_unique) simp_all
  show ?thesis
    using is_double_below_half h p new(1,2) stored exact by blast
qed

text \<open>
  C1, amended.  For a player whose stats row satisfies the model's validator (every
  stat from 0 to 100, as every stored row does) and a delta map of doubles, infinities
  and NaN, \<open>applyStatChange\<close> succeeds and stores, for each of the six stats,
  round(clamp(old + delta, 0, 100)) with the sum rounded to a double: an integer in
  [0,100] however large the delta, 100 and 0 for an infinite delta.  Where the exact sum is
  a double (an integer or half-integer delta, for one), this is the exact
  round(clamp(old + delta, 0, 100)).  A stat the delta map does not name, or names with
  NaN, keeps its value.  The stored row satisfies the validator again, so the same
  holds after any number of applications.
\<close>

theorem applyStatChange_clamp:
  assumes "findStats playerId db = Some old" and "valid_stats old"
    and "\<forall>s d. changes s = Some (Finite d) \<longrightarrow> is_double d"
  shows "\<exists>new. applyStatChange playerId changes db = (Inr new, updateStatsRow new db)
           \<and> findStats playerId (updateStatsRow new db) = Some new
           \<and> (\<forall>s. stat_value s new =
                      (case changes s of
                         None \<Rightarrow> stat_value s old
                       | Some NaN \<Rightarrow> stat_value s old
                       | Some PosInf \<Rightarrow> 100
                       | Some NegInf \<Rightarrow> 0
                       | Some (Finite d) \<Rightarrow>
                           round (max 0 (min 100 (dbl (real_of_int (stat_value s old) + d)))))
                    \<and> 0 \<le> stat_value s new \<and> stat_value s new \<le> 100)
           \<and> (\<forall>s d. changes s = Some (Finite d) \<and> is_double (real_of_int (stat_value s old) + d) \<longrightarrow>
                  stat_value s new = round (max 0 (min 100 (real_of_int (stat_value s old) + d))))
           \<and> valid_stats new"
proof -
  obtain new where new: "applyStatChange playerId changes db = (Inr new, updateStatsRow new db)"
      "findStats playerId (updateStatsRow new db) = Some new"
      "\<And>s. stat_value s new =
         (case delta_or_0 changes s of
            Finite d \<Rightarrow> max 0 (min 100 (round (dbl (real_of_int (stat_value s old) + d))))
          | PosInf \<Rightarrow> 100 | NegInf \<Rightarrow> 0 | NaN \<Rightarrow> 0)"
    using applyStatChange_result [OF assms(1), of changes] by blast
  have rng: "0 \<le> stat_value s old \<and> stat_value s old \<le> 100" for s
    using assms(2) by (cases s) (simp_all add: valid_stats_def)
  have keep: "max 0 (min 100 (round (dbl (real_of_int (stat_value s old) + 0)))) = stat_value s old" for s
  proof -
    have "dbl (real_of_int (stat_value s old)) = real_of_int (stat_value s old)"
      using rng [of s] by (intro dbl_of_int) simp
    then show ?thesis using rng [of s] by simp
  qed
  have formula: "stat_value s new =
      (case changes s of
         None \<Rightarrow> stat_value s old
       | Some NaN \<Rightarrow> stat_value s old
       | Some PosInf \<Rightarrow> 100
       | Some NegInf \<Rightarrow> 0
       | Some (Finite d) \<Rightarrow> round (max 0 (min 100 (dbl (real_of_int (stat_value s old) + d)))))" for s
    using new(3) [of s] keep [of s]
    by (simp add: delta_or_0_def clamp_round split: option.splits number.splits)
  have range: "0 \<le> stat_value s new \<and> stat_value s new \<le> 100" for s
    using new(3) [of s] by (simp split: number.splits)
  have exact: "stat_value s new = round (max 0 (min 100 (real_of_int (stat_value s old) + d)))"
    if "changes s = Some (Finite d)" "is_double (real_of_int (stat_value s old) + d)" for s d
    using formula [of s] that(1) dbl_of_double [OF that(2)] by simp
  have valid: "valid_stats new"
    using range [of Physical] range [of Intelligence] range [of Discipline]
      range [of Charisma] range [of Confidence] range [of Creativity]
    by (simp add: valid_stats_def)
  show ?thesis
    using new(1,2) formula range exact valid by blast
qed

theorem applyStatChange_clamp_witness:
  "findStats 1 test_db = Some test_stats \<and> valid_stats test_stats
   \<and> is_double 60 \<and> is_double (- (1 / 2)) \<and> is_double (- 1000) \<and> is_double (1 / 2 - 1 / 2 ^ 54)
   \<and> (\<exists>new. applyStatChange 1 [Discipline \<mapsto> Finite 60, Confidence \<mapsto> Finite (- (1 / 2)),
                                 Physical \<mapsto> Finite (- 1000), Intelligence \<mapsto> PosInf,
                                 Creativity \<mapsto> Finite (1 / 2 - 1 / 2 ^ 54)] test_db
                  = (Inr new, updateStatsRow new test_db)
            \<and> stat_value Discipline new = 100 \<and> stat_value Confidence new = 50
            \<and> stat_value Physical new = 0 \<and> stat_value Intelligence new = 100
            \<and> stat_value Creativity new = 51 \<and> stat_value Charisma new = 50)"
proof -
  define e :: real where "e = 1 / 2 - 1 / 2 ^ 54"
  let ?old = "test_stats"
  let ?ch = "[Discipline \<mapsto> Finite 60, Confidence \<mapsto> Finite (- (1 / 2)),
              Physical \<mapsto> Finite (- 1000), Intelligence \<mapsto> PosInf,
              Creativity \<mapsto> Finite e] :: StatChanges"
  have h: "findStats 1 test_db = Some ?old"
    by (simp add: findStats_def test_db_def test_stats_def)
  have v: "valid_stats ?old"
    by (simp add: valid_stats_def test_stats_def)
  have d: "is_double 60" "is_double (- (1 / 2))" "is_double (- 1000)"
    using is_double_int [of 60] is_double_half_int [of "- 1"] is_double_int [of "- 1000"]
    by simp_all
  have e: "is_double e"
    unfolding e_def by (rule is_double_below_half)
  have sums: "is_double (50 + 60)" "is_double (50 + - (1 / 2))" "is_double (50 + - 1000)"
    using is_double_int [of 110] is_double_half_int [of 99] is_double_int [of "- 950"]
    by simp_all
  have doubles: "\<forall>s d. ?ch s = Some (Finite d) \<longrightarrow> is_double d"
    using d e by (auto split: if_splits)
  obtain new where run: "applyStatChange 1 ?ch test_db = (Inr new, updateStatsRow new test_db)"
    and formula: "\<And>s. stat_value s new =
                      (case ?ch s of
                         None \<Rightarrow> stat_value s ?old
                       | Some NaN \<Rightarrow> stat_value s ?old
                       | Some PosInf \<Rightarrow> 100
                       | Some NegInf \<Rightarrow> 0
                       | Some (Finite d) \<Rightarrow>
                           round (max 0 (min 100 (dbl (real_of_int (stat_value s ?old) + d)))))"
    and exact: "\<And>s d. ?ch s = Some (Finite d) \<Longrightarrow> is_double (real_of_int (stat_value s ?old) + d) \<Longrightarrow>
                  stat_value s new = round (max 0 (min 100 (real_of_int (stat_value s ?old) + d)))"
    using applyStatChange_clamp [OF h v doubles] by blast
  have "stat_value Discipline new = 100"
    using exact [of Discipline 60] sums(1) by (simp add: test_stats_def round_def)
  moreover have "stat_value Confidence new = 50"
    using exact [of Confidence "- (1 / 2)"] sums(2) by (simp add: test_stats_def round_def)
  moreover have "stat_value Physical new = 0"
    using exact [of Physical "- 1000"] sums(3) by (simp add: test_stats_def round_def)
  moreover have "stat_value Intelligence new = 100" "stat_value Charisma new = 50"
    using formula [of Intelligence] formula [of Charisma] by (simp_all add: test_stats_def)
  moreover have "stat_value Creativity new = 51"
  proof -
    have r: "round ((101::real) / 2) = 51"
      unfolding round_def by (intro floor_unique) simp_all
    have "stat_value Creativity new = round (max 0 (min 100 (dbl (50 + e))))"
      using formula [of Creativity] by (simp add: test_stats_def)
    then show ?thesis
      unfolding e_def dbl_50_below_half using r by simp
  qed
  ultimately show ?thesis
    using h v d is_double_below_half run [unfolded e_def] by blast
qed

section \<open>Rank table\<close>

text \<open>
  C6.  \<open>calculateRank\<close> is the interval table E [0,999], D [1000,4999], C [5000,14999],
  B [15000,39999], A [40000,99999], S [100000,249999], SS [250000,..); the boundary
  values 999, 1000, 249999 and 250000 give E, D, S and SS, and every negative XP gives E.
\<close>

theorem calculateRank_table:
  "calculateRank txp =
     Inr (if txp \<le> 999 then E
          else if txp \<le> 4999 then D
          else if txp \<le> 14999 then C
          else if txp \<le> 39999 then B
          else if txp \<le> 99999 then A
          else if txp \<le> 249999 then S
          else SS)
   \<and> calculateRank 999 = Inr E
   \<and> calculateRank 1000 = Inr D
   \<and> calculateRank 249999 = Inr S
   \<and> calculateRank 250000 = Inr SS
   \<and> (txp < 0 \<longrightarrow> calculateRank txp = Inr E)"
  by (simp add: calculateRank_def RANK_XP_THRESHOLDS_def)

theorem calculateRank_table_witness:
  "calculateRank 5000 = Inr C \<and> calculateRank (- 40) = Inr E"
  using calculateRank_table [of 5000] calculateRank_table [of "- 40"] by simp

section \<open>Level curve\<close>

text \<open>
  C7, as stated, fails: the code rounds the double \<open>100 * Math.pow(level, 1.5)\<close>.  At
  level 455628 the exact value lies just below a half-integer; with the engine that
  returns the double nearest to the power, the product is the double 30754991250.5 and
  \<open>calculateXpRequired\<close> is 30754991251, while round(100 * level^1.5) is 30754991250.
\<close>

theorem calculateXpRequired_double_rounding:
  "calculateXpRequired correctly_rounded_pow 455628 = Inr 30754991251
   \<and> round (100 * (real_of_int 455628) powr 1.5) = (30754991250::int)"
  using calculateXpRequired_455628 xp_curve_455628 by simp

text \<open>
  C7, amended.  With any engine whose \<open>Math.pow\<close> is accurate to the relative error
  \<open>2^-52\<close>: for every level from 1 to \<open>2^53\<close>, \<open>calculateXpRequired(level)\<close> is within
  \<open>1/2 + 100 * level^1.5 / 2^51\<close> of \<open>100 * level^1.5\<close>, and it is round(100 * level^1.5)
  whenever \<open>100 * level^1.5\<close> keeps the distance \<open>100 * level^1.5 / 2^51\<close> from the two
  half-integers around it; so it is 100 at level 1, 1118 at level 5 and 8944 at level
  20.  For every XP total of the 32-bit column (at most 2147483647), \<open>calculateLevel\<close>
  returns a level \<open>L\<close> of at least 1 that no level whose requirement is within the total
  exceeds; from 100 XP on the requirement of \<open>L\<close> itself is within the total (so \<open>L\<close>
  is the largest such level), and below 100 XP, negative totals included, \<open>L\<close> is 1.
  \<open>calculateLevel(1118)\<close> is 5.
\<close>

theorem calculateLevel_largest_affordable:
  "(1 \<le> lvl \<and> lvl \<le> 2 ^ 53 \<longrightarrow>
      (\<exists>x. calculateXpRequired engine lvl = Inr x
          \<and> \<bar>real_of_int x - 100 * (real_of_int lvl) powr 1.5\<bar>
             \<le> 1 / 2 + 100 * (real_of_int lvl) powr 1.5 / 2 ^ 51
          \<and> (real_of_int (round (100 * (real_of_int lvl) powr 1.5)) - 1 / 2
                \<le> 100 * (real_of_int lvl) powr 1.5 - 100 * (real_of_int lvl) powr 1.5 / 2 ^ 51
              \<and> 100 * (real_of_int lvl) powr 1.5 + 100 * (real_of_int lvl) powr 1.5 / 2 ^ 51
                < real_of_int (round (100 * (real_of_int lvl) powr 1.5)) + 1 / 2
              \<longrightarrow> x = round (100 * (real_of_int lvl) powr 1.5))))
   \<and> calculateXpRequired engine 1 = Inr 100
   \<and> calculateXpRequired engine 5 = Inr 1118
   \<and> calculateXpRequired engine 20 = Inr 8944
   \<and> (txp \<le> 2147483647 \<longrightarrow>
        (\<exists>L. calculateLevel engine txp = Inr L \<and> 1 \<le> L
            \<and> (\<forall>l x. 1 \<le> l \<and> calculateXpRequired engine l = Inr x \<and> x \<le> txp \<longrightarrow> l \<le> L)
            \<and> (100 \<le> txp \<longrightarrow> (\<exists>x. calculateXpRequired engine L = Inr x \<and> x \<le> txp))
            \<and> (txp < 100 \<longrightarrow> L = 1)))
   \<and> calculateLevel engine 1118 = Inr 5"
proof -
  have curve: "\<exists>x. calculateXpRequired engine lvl = Inr x
          \<and> \<bar>real_of_int x - 100 * (real_of_int lvl) powr 1.5\<bar>
             \<le> 1 / 2 + 100 * (real_of_int lvl) powr 1.5 / 2 ^ 51
          \<and> (real_of_int (round (100 * (real_of_int lvl) powr 1.5)) - 1 / 2
                \<le> 100 * (real_of_int lvl) powr 1.5 - 100 * (real_of_int lvl) powr 1.5 / 2 ^ 51
              \<and> 100 * (real_of_int lvl) powr 1.5 + 100 * (real_of_int lvl) powr 1.5 / 2 ^ 51
                < real_of_int (round (100 * (real_of_int lvl) powr 1.5)) + 1 / 2
              \<longrightarrow> x = round (100 * (real_of_int lvl) powr 1.5))"
    if l: "1 \<le> lvl" "lvl \<le> 2 ^ 53"
  proof -
    obtain x where x: "calculateXpRequired engine lvl = Inr x"
        "\<bar>real_of_int x - 100 * (real_of_int lvl) powr 1.5\<bar>
             \<le> 1 / 2 + 100 * (real_of_int lvl) powr 1.5 / 2 ^ 51"
      using calculateXpRequired_bounds [OF l(1), of engine] by blast
    show ?thesis
      using x calculateXpRequired_tie_free [OF l(1), of "round (100 * (real_of_int lvl) powr 1.5)" engine]
      by auto
  qed
  have lev: "\<exists>L. calculateLevel engine txp = Inr L \<and> 1 \<le> L
            \<and> (\<forall>l x. 1 \<le> l \<and> calculateXpRequired engine l = Inr x \<and> x \<le> txp \<longrightarrow> l \<le> L)
            \<and> (100 \<le> txp \<longrightarrow> (\<exists>x. calculateXpRequired engine L = Inr x \<and> x \<le> txp))
            \<and> (txp < 100 \<longrightarrow> L = 1)"
    if "txp \<le> 2147483647"
    using calculateLevel_is_largest [OF that] .
  show ?thesis
    using curve lev calculateXpRequired_values(1,5,7) [of engine] calculateLevel_1118 [of engine]
    by blast
qed

theorem calculateLevel_largest_affordable_witness:
  "(1::int) \<le> 3 \<and> (3::int) \<le> 2 ^ 53 \<and> calculateXpRequired correctly_rounded_pow 3 = Inr 520
   \<and> \<bar>real_of_int 520 - 100 * (real_of_int 3) powr 1.5\<bar> \<le> 1 / 2 + 100 * (real_of_int 3) powr 1.5 / 2 ^ 51
   \<and> (600::int) \<le> 2147483647 \<and> (100::int) \<le> 600
   \<and> calculateLevel correctly_rounded_pow 600 = Inr 3
   \<and> calculateLevel correctly_rounded_pow (- 7) = Inr 1"
proof -
  have v: "calculateXpRequired correctly_rounded_pow 3 = Inr 520"
    by (rule calculateXpRequired_values)
  have near: "\<bar>real_of_int 520 - 100 * (real_of_int 3) powr 1.5\<bar>
              \<le> 1 / 2 + 100 * (real_of_int 3) powr 1.5 / 2 ^ 51"
    using calculateLevel_largest_affordable [of 3 correctly_rounded_pow 600] v by auto
  have neg: "calculateLevel correctly_rounded_pow (- 7) = Inr 1"
    using calculateLevel_largest_affordable [of 3 correctly_rounded_pow "- 7"] by auto
  have "\<exists>L. calculateLevel correctly_rounded_pow 600 = Inr L \<and> 3 \<le> L"
    using calculateLevel_largest_affordable [of 3 correctly_rounded_pow 600] v by auto
  then show ?thesis
    using v near neg calculateLevel_600 [of correctly_rounded_pow] by simp
qed

section \<open>Experience\<close>

text \<open>
  C5, as stated, fails: \<open>totalXp\<close> is a 32-bit INTEGER column.  An amount that takes the
  total out of its range makes the update throw, and the row stays as it was: 3000000000
  XP for a player without XP (a verdict may award any non-negative integer), or 1 XP
  for a player at 2147483647.
\<close>

theorem addXp_integer_overflow:
  "findPlayerByPk 1 test_db = Some test_player \<and> totalXp test_player = 0
   \<and> addXp correctly_rounded_pow 1 3000000000 test_db = (Inl IntegerOutOfRange, test_db)
   \<and> addXp correctly_rounded_pow 1 1 (test_db\<lparr>players := [test_player\<lparr>totalXp := 2147483647\<rparr>]\<rparr>)
       = (Inl IntegerOutOfRange, test_db\<lparr>players := [test_player\<lparr>totalXp := 2147483647\<rparr>]\<rparr>)"
  by (simp add: addXp_def findPlayerByPk_def test_db_def test_player_def int32_def Let_def)

text \<open>
  C5, amended.  For a player that exists and an integer amount: the amount 0 leaves the
  row and the database as they are and returns the row.  An amount other than 0 whose
  sum with the total lies in the range of the INTEGER column succeeds: the returned row
  is the stored one, its total is the old total plus the amount, its level and rank are
  \<open>calculateLevel\<close> and \<open>calculateRank\<close> of the new total, no other column of the row
  and no other row changes.  An amount whose sum with the total leaves the range fails
  with the database's range error and changes nothing.
\<close>

theorem addXp_recomputes:
  assumes "findPlayerByPk playerId db = Some p"
  shows "(amount = 0 \<longrightarrow> addXp engine playerId amount db = (Inr p, db))
         \<and> (amount \<noteq> 0 \<and> - 2147483648 \<le> totalXp p + amount \<and> totalXp p + amount \<le> 2147483647 \<longrightarrow>
              (\<exists>p'. addXp engine playerId amount db
                       = (Inr p', db\<lparr>players := map (\<lambda>q. if player_id q = playerId then p' else q)
                                                    (players db)\<rparr>)
                   \<and> findPlayerByPk playerId (snd (addXp engine playerId amount db)) = Some p'
                   \<and> totalXp p' = totalXp p + amount
                   \<and> calculateLevel engine (totalXp p + amount) = Inr (level p')
                   \<and> calculateRank (totalXp p + amount) = Inr (rank p')
                   \<and> p' = p\<lparr>totalXp := totalXp p + amount, level := level p', rank := rank p'\<rparr>))
         \<and> (amount \<noteq> 0 \<and> (totalXp p + amount < - 2147483648 \<or> 2147483647 < totalXp p + amount) \<longrightarrow>
              addXp engine playerId amount db = (Inl IntegerOutOfRange, db))"
proof -
  have zero: "addXp engine playerId amount db = (Inr p, db)" if "amount = 0"
    using addXp_zero [OF assms, of engine] that by simp
  have ok: "\<exists>p'. addXp engine playerId amount db
                       = (Inr p', db\<lparr>players := map (\<lambda>q. if player_id q = playerId then p' else q)
                                                    (players db)\<rparr>)
                   \<and> findPlayerByPk playerId (snd (addXp engine playerId amount db)) = Some p'
                   \<and> totalXp p' = totalXp p + amount
                   \<and> calculateLevel engine (totalXp p + amount) = Inr (level p')
                   \<and> calculateRank (totalXp p + amount) = Inr (rank p')
                   \<and> p' = p\<lparr>totalXp := totalXp p + amount, level := level p', rank := rank p'\<rparr>"
    if a: "amount \<noteq> 0" "- 2147483648 \<le> totalXp p + amount" "totalXp p + amount \<le> 2147483647"
  proof -
    have r: "int32 (totalXp p + amount)"
      using a(2,3) by (simp add: int32_def)
    obtain p' where p': "addXp engine playerId amount db = (Inr p', updatePlayerRow p' db)"
        "findPlayerByPk playerId (updatePlayerRow p' db) = Some p'"
        "totalXp p' = totalXp p + amount"
        "calculateLevel engine (totalXp p + amount) = Inr (level p')"
        "calculateRank (totalXp p + amount) = Inr (rank p')"
        "p' = p\<lparr>totalXp := totalXp p + amount, level := level p', rank := rank p'\<rparr>"
      using addXp_result [OF assms a(1) r, of engine] by blast
    have "player_id p' = playerId"
      using findPlayerByPk_id [OF p'(2)] .
    then have "updatePlayerRow p' db
        = db\<lparr>players := map (\<lambda>q. if player_id q = playerId then p' else q) (players db)\<rparr>"
      by (simp add: updatePlayerRow_def)
    then show ?thesis
      using p' by auto
  qed
  have bad: "addXp engine playerId amount db = (Inl IntegerOutOfRange, db)"
    if "amount \<noteq> 0" "totalXp p + amount < - 2147483648 \<or> 2147483647 < totalXp p + amount"
    using that by (intro addXp_out_of_range [OF assms]) (auto simp: int32_def)
  show ?thesis
    using zero ok bad by blast
qed

theorem addXp_recomputes_witness:
  "findPlayerByPk 1 test_db = Some test_player
   \<and> addXp correctly_rounded_pow 1 1118 test_db
       = (Inr \<lparr>player_id = 1, rank = D, level = 5, totalXp = 1118\<rparr>,
          test_db\<lparr>players := [\<lparr>player_id = 1, rank = D, level = 5, totalXp = 1118\<rparr>]\<rparr>)
   \<and> addXp correctly_rounded_pow 1 0 test_db = (Inr test_player, test_db)
   \<and> addXp correctly_rounded_pow 1 (- 3000000000) test_db = (Inl IntegerOutOfRange, test_db)"
proof -
  let ?e = correctly_rounded_pow
  have h: "findPlayerByPk 1 test_db = Some test_player"
    by (simp add: findPlayerByPk_def test_db_def test_player_def)
  have t: "totalXp test_player = 0"
    by (simp add: test_player_def)
  obtain p' where a: "addXp ?e 1 1118 test_db
         = (Inr p', test_db\<lparr>players := map (\<lambda>q. if player_id q = 1 then p' else q) (players test_db)\<rparr>)"
      "calculateLevel ?e (totalXp test_player + 1118) = Inr (level p')"
      "calculateRank (totalXp test_player + 1118) = Inr (rank p')"
      "p' = test_player\<lparr>totalXp := totalXp test_player + 1118, level := level p', rank := rank p'\<rparr>"
    using addXp_recomputes [OF h, of 1118 ?e] t by auto
  have "level p' = 5"
    using a(2) calculateLevel_1118 [of ?e] by (simp add: t)
  moreover have "rank p' = D"
    using a(3) by (simp add: t calculateRank_def RANK_XP_THRESHOLDS_def)
  ultimately have p': "p' = \<lparr>player_id = 1, rank = D, level = 5, totalXp = 1118\<rparr>"
    using a(4) by (simp add: test_player_def)
  have w1: "addXp ?e 1 1118 test_db
       = (Inr \<lparr>player_id = 1, rank = D, level = 5, totalXp = 1118\<rparr>,
          test_db\<lparr>players := [\<lparr>player_id = 1, rank = D, level = 5, totalXp = 1118\<rparr>]\<rparr>)"
    using a(1) unfolding p' by (simp add: test_db_def test_player_def)
  have w2: "addXp ?e 1 0 test_db = (Inr test_player, test_db)"
    using addXp_recomputes [OF h, of 0 ?e] by simp
  have w3: "addXp ?e 1 (- 3000000000) test_db = (Inl IntegerOutOfRange, test_db)"
    using addXp_recomputes [OF h, of "- 3000000000" ?e] t by simp
  show ?thesis
    using h w1 w2 w3 by simp
qed

section \<open>Judge contract\<close>

text \<open>
  C2.  Whenever the attempt to obtain a verdict from the oracle fails (the call throws,
  as on a transport error or a timeout, the completion has no content, the content does
  not parse, or validation rejects the parsed value), \<open>judgeTask\<close> returns the
  deterministic fallback: verdict success, XP 20, 50, 100 or 200 for an easy, medium,
  hard or extreme task, the stat changes that give the task's target stat +1, and the
  fixed comment.
\<close>

theorem judgeTask_fallback:
  assumes "reply = CallFailed \<or> reply = NoContent \<or> reply = Malformed
           \<or> (\<exists>d e. reply = Parsed d \<and> validateJudgeResponse d = Inl e)"
  shows "judgeTask task playerStats ev reply =
           \<lparr>verdict = success,
            xp = (case difficulty task of easy \<Rightarrow> 20 | medium \<Rightarrow> 50 | hard \<Rightarrow> 100 | extreme \<Rightarrow> 200),
            statChanges = [(stat_name (targetStat task), 1)],
            comment = ''Task evaluated using system fallback.''\<rparr>"
proof -
  have "\<exists>e. judgeAttempt reply = Inl e"
    using assms by (auto simp: judgeAttempt_def)
  then show ?thesis
    by (auto simp: judgeTask_def getDeterministicFallback_def DEFAULT_XP_BY_DIFFICULTY_def)
qed

theorem judgeTask_fallback_witness:
  "validateJudgeResponse
      (JObject [(''verdict'', JString ''maybe''), (''xp'', JNumber 10),
                (''statChanges'', JObject []), (''comment'', JString ''Test'')]) = Inl InvalidVerdict
   \<and> judgeTask test_task test_stats ''I did it''
        (Parsed (JObject [(''verdict'', JString ''maybe''), (''xp'', JNumber 10),
                          (''statChanges'', JObject []), (''comment'', JString ''Test'')]))
       = \<lparr>verdict = success, xp = 50, statChanges = [(''physical'', 1)],
          comment = ''Task evaluated using system fallback.''\<rparr>
   \<and> judgeTask (test_task\<lparr>difficulty := extreme\<rparr>) test_stats ''I did it'' CallFailed
       = \<lparr>verdict = success, xp = 200, statChanges = [(''physical'', 1)],
          comment = ''Task evaluated using system fallback.''\<rparr>"
proof -
  let ?d = "JObject [(''verdict'', JString ''maybe''), (''xp'', JNumber 10),
                     (''statChanges'', JObject []), (''comment'', JString ''Test'')]"
  have v: "validateJudgeResponse ?d = Inl InvalidVerdict"
    by (simp add: validateJudgeResponse_def)
  have "judgeTask test_task test_stats ''I did it'' (Parsed ?d)
       = \<lparr>verdict = success, xp = 50, statChanges = [(''physical'', 1)],
          comment = ''Task evaluated using system fallback.''\<rparr>"
    using judgeTask_fallback [of "Parsed ?d" test_task test_stats "''I did it''"] v
    by (simp add: test_task_def)
  moreover have "judgeTask (test_task\<lparr>difficulty := extreme\<rparr>) test_stats ''I did it'' CallFailed
       = \<lparr>verdict = success, xp = 200, statChanges = [(''physical'', 1)],
          comment = ''Task evaluated using system fallback.''\<rparr>"
    using judgeTask_fallback [of CallFailed "test_task\<lparr>difficulty := extreme\<rparr>" test_stats "''I did it''"]
    by (simp add: test_task_def)
  ultimately show ?thesis using v by simp
qed

text \<open>
  C3, as stated, fails: a response whose comment is the empty string, and which is
  otherwise valid, is accepted and returned by \<open>judgeTask\<close> in place of the fallback.
\<close>

theorem validateJudgeResponse_empty_comment:
  "validateJudgeResponse
      (JObject [(''verdict'', JString ''success''), (''xp'', JNumber 10),
                (''statChanges'', JObject []), (''comment'', JString '''')])
     = Inr \<lparr>verdict = success, xp = 10, statChanges = [], comment = ''''\<rparr>
   \<and> judgeTask test_task test_stats ''I did it''
        (Parsed (JObject [(''verdict'', JString ''success''), (''xp'', JNumber 10),
                          (''statChanges'', JObject []), (''comment'', JString '''')]))
     = \<lparr>verdict = success, xp = 10, statChanges = [], comment = ''''\<rparr>"
  by (simp add: validateJudgeResponse_def judgeTask_def judgeAttempt_def isInteger_def)

lemma validateJudgeResponse_accepts:
  "validateJudgeResponse data = Inr r \<Longrightarrow>
   \<exists>response. data = JObject response \<and> map_of response ''comment'' = Some (JString (comment r))"
  unfolding validateJudgeResponse_def
  by (auto split: json.splits option.splits if_splits sum.splits)

text \<open>
  C3, amended.  \<open>validateJudgeResponse\<close> accepts a response only if it is an object
  whose \<open>comment\<close> is a string, which it returns as the comment: a response whose
  comment is missing or is not a string is rejected as a whole, and \<open>judgeTask\<close>
  returns the deterministic fallback for it.  The string may be empty.
\<close>

theorem validateJudgeResponse_comment_string:
  "(validateJudgeResponse data = Inr r \<longrightarrow>
      (\<exists>response. data = JObject response
                  \<and> map_of response ''comment'' = Some (JString (comment r))))
   \<and> ((\<nexists>response c. data = JObject response \<and> map_of response ''comment'' = Some (JString c)) \<longrightarrow>
        (\<exists>e. validateJudgeResponse data = Inl e)
        \<and> judgeTask task playerStats ev (Parsed data) = getDeterministicFallback task)"
proof -
  have a: "validateJudgeResponse data = Inr r \<longrightarrow>
      (\<exists>response. data = JObject response
                  \<and> map_of response ''comment'' = Some (JString (comment r)))" for r
    using validateJudgeResponse_accepts by blast
  have b: "\<exists>e. validateJudgeResponse data = Inl e"
    if "\<nexists>response c. data = JObject response \<and> map_of response ''comment'' = Some (JString c)"
  proof (cases "validateJudgeResponse data")
    case (Inl e)
    then show ?thesis by blast
  next
    case (Inr r')
    then show ?thesis using a [of r'] that by blast
  qed
  have c: "judgeTask task playerStats ev (Parsed data) = getDeterministicFallback task"
    if "\<exists>e. validateJudgeResponse data = Inl e"
    using that by (auto simp: judgeTask_def judgeAttempt_def)
  show ?thesis using a b c by blast
qed

theorem validateJudgeResponse_comment_string_witness:
  "validateJudgeResponse
      (JObject [(''verdict'', JString ''success''), (''xp'', JNumber 10),
                (''statChanges'', JObject []), (''comment'', JNumber 5)]) = Inl CommentNotString
   \<and> judgeTask test_task test_stats ''I did it''
        (Parsed (JObject [(''verdict'', JString ''success''), (''xp'', JNumber 10),
                          (''statChanges'', JObject []), (''comment'', JNumber 5)]))
       = getDeterministicFallback test_task
   \<and> validateJudgeResponse
      (JObject [(''verdict'', JString ''fail''), (''xp'', JNumber 0),
                (''statChanges'', JObject []), (''comment'', JString ''Evidence insufficient.'')])
       = Inr \<lparr>verdict = fail, xp = 0, statChanges = [], comment = ''Evidence insufficient.''\<rparr>"
proof -
  let ?bad = "JObject [(''verdict'', JString ''success''), (''xp'', JNumber 10),
                (''statChanges'', JObject []), (''comment'', JNumber 5)]"
  let ?good = "JObject [(''verdict'', JString ''fail''), (''xp'', JNumber 0),
                (''statChanges'', JObject []), (''comment'', JString ''Evidence insufficient.'')]"
  have h: "\<nexists>response c. ?bad = JObject response \<and> map_of response ''comment'' = Some (JString c)"
    by simp
  have e: "validateJudgeResponse ?bad = Inl CommentNotString"
    by (simp add: validateJudgeResponse_def isInteger_def)
  have g: "validateJudgeResponse ?good = Inr \<lparr>verdict = fail, xp = 0, statChanges = [], comment = ''Evidence insufficient.''\<rparr>"
    by (simp add: validateJudgeResponse_def isInteger_def)
  have "judgeTask test_task test_stats ''I did it'' (Parsed ?bad) = getDeterministicFallback test_task"
    using validateJudgeResponse_comment_string [of ?bad _ test_task test_stats "''I did it''"] h by blast
  moreover have "\<exists>response. ?good = JObject response
      \<and> map_of response ''comment'' = Some (JString ''Evidence insufficient.'')"
    using validateJudgeResponse_comment_string [of ?good "\<lparr>verdict = fail, xp = 0, statChanges = [], comment = ''Evidence insufficient.''\<rparr>" test_task test_stats "''I did it''"] g
    by simp
  ultimately show ?thesis using e g by simp
qed

section \<open>Penalty ladder\<close>




section \<open>Sanctions without expiry\<close>

lemma applyPenalty_stat_decay:
  assumes "5 \<le> psi" "psi < 10" "findStats playerId db = Some st"
    and "findPlayerByPk playerId db \<noteq> None"
  shows "\<exists>st' pen. applyPenalty engine playerId psi now db
           = (Inr ''stat_decay'', (updateStatsRow st' db)\<lparr>penalties := penalties db @ [pen]\<rparr>)"
proof -
  let ?ch = "[Discipline \<mapsto> Finite (- 1), Confidence \<mapsto> Finite (- 0.5)] :: StatChanges"
  obtain st' where st': "applyStatChange playerId ?ch db = (Inr st', updateStatsRow st' db)"
    using applyStatChange_result [OF assms(3), of ?ch] by blast
  have ex': "findPlayerByPk playerId (updateStatsRow st' db) \<noteq> None"
    using assms(4) by simp
  have "int32 psi" using assms(1,2) by (simp add: int32_def)
  then obtain pen where pen: "createPenalty playerId missed_task psi None now (updateStatsRow st' db)
         = (Inr pen, (updateStatsRow st' db)\<lparr>penalties := penalties (updateStatsRow st' db) @ [pen]\<rparr>)"
    using createPenalty_result [OF ex', of psi missed_task None now] by blast
  have ps: "penalties (updateStatsRow st' db) = penalties db"
    by (simp add: updateStatsRow_def)
  have "applyPenalty engine playerId psi now db
      = (Inr ''stat_decay'', (updateStatsRow st' db)\<lparr>penalties := penalties db @ [pen]\<rparr>)"
    using assms(1,2) st' pen by (simp add: applyPenalty_def ps)
  then show ?thesis by blast
qed

lemma cleanup_keeps_unexpiring:
  "q \<in> set (penalties d) \<Longrightarrow> expiresAt q = None \<Longrightarrow>
   q \<in> set (penalties (snd (cleanupExpiredPenalties t d)))"
  by (simp add: cleanupExpiredPenalties_def Let_def)

lemma unexpiring_is_active:
  "q \<in> set (penalties d) \<Longrightarrow> expiresAt q = None \<Longrightarrow>
   q \<in> set (getActivePenalties (penalty_playerId q) t d)"
  by (simp add: getActivePenalties_def)

lemma cleanup_removes_iff:
  "q \<in> set (penalties d) \<Longrightarrow>
   (q \<notin> set (penalties (snd (cleanupExpiredPenalties t d)))) = (\<exists>e. expiresAt q = Some e \<and> e < t)"
  by (auto simp: cleanupExpiredPenalties_def Let_def split: option.splits)

text \<open>
  C10.  A sanction that \<open>applyPenalty\<close> creates in the warning or the stat_decay band
  (severity index below 10) has no \<open>expiresAt\<close>.  \<open>getActivePenalties\<close> lists a
  sanction without \<open>expiresAt\<close> at every time, and \<open>cleanupExpiredPenalties\<close> deletes
  exactly the sanctions whose \<open>expiresAt\<close> is set and lies before the clock: such a
  sanction is active at every time and survives every cleanup.
\<close>

theorem unexpiring_sanctions_stay:
  assumes "psi < 10" and "applyPenalty engine playerId psi now db = (Inr kind, db')"
  shows "(kind = ''warning'' \<or> kind = ''stat_decay'')
         \<and> (\<exists>pen. penalties db' = penalties db @ [pen]
               \<and> penalty_playerId pen = playerId \<and> reason pen = missed_task
               \<and> expiresAt pen = None
               \<and> (\<forall>t. pen \<in> set (getActivePenalties playerId t db'))
               \<and> (\<forall>t. pen \<in> set (penalties (snd (cleanupExpiredPenalties t db')))))
         \<and> (\<forall>d t q. q \<in> set (penalties d) \<and> expiresAt q = None \<longrightarrow>
               q \<in> set (getActivePenalties (penalty_playerId q) t d)
               \<and> q \<in> set (penalties (snd (cleanupExpiredPenalties t d))))
         \<and> (\<forall>d t q. q \<in> set (penalties d) \<longrightarrow>
               (q \<notin> set (penalties (snd (cleanupExpiredPenalties t d))))
                 = (\<exists>e. expiresAt q = Some e \<and> e < t))"
proof -
  have made: "(kind = ''warning'' \<or> kind = ''stat_decay'')
      \<and> (\<exists>pen. penalties db' = penalties db @ [pen] \<and> penalty_playerId pen = playerId
             \<and> reason pen = missed_task \<and> expiresAt pen = None)"
  proof (cases "psi < 5")
    case True
    then show ?thesis
      using assms(2)
      by (auto simp: applyPenalty_def createPenalty_def Let_def split: if_splits)
  next
    case False
    then show ?thesis
      using assms
      by (auto simp: applyPenalty_def createPenalty_def Let_def
          split: if_splits prod.splits sum.splits dest: applyStatChange_penalties)
  qed
  then obtain pen where pen: "penalties db' = penalties db @ [pen]" "penalty_playerId pen = playerId"
      "reason pen = missed_task" "expiresAt pen = None"
    by blast
  have mem: "pen \<in> set (penalties db')"
    using pen(1) by simp
  have act: "pen \<in> set (getActivePenalties playerId t db')" for t
    using unexpiring_is_active [OF mem pen(4), of t] pen(2) by simp
  have kept: "pen \<in> set (penalties (snd (cleanupExpiredPenalties t db')))" for t
    using cleanup_keeps_unexpiring [OF mem pen(4)] .
  show ?thesis
    using made pen act kept unexpiring_is_active cleanup_keeps_unexpiring cleanup_removes_iff
    by blast
qed

theorem unexpiring_sanctions_stay_witness:
  "(7::int) < 10 \<and> fst (applyPenalty correctly_rounded_pow 1 7 1000 test_db) = Inr ''stat_decay''
   \<and> (\<exists>pen. penalties (snd (applyPenalty correctly_rounded_pow 1 7 1000 test_db)) = [pen]
          \<and> expiresAt pen = None
          \<and> pen \<in> set (getActivePenalties 1 9000000000
                            (snd (applyPenalty correctly_rounded_pow 1 7 1000 test_db)))
          \<and> pen \<in> set (penalties (snd (cleanupExpiredPenalties 9000000000
                                          (snd (applyPenalty correctly_rounded_pow 1 7 1000 test_db))))))"
proof -
  let ?e = correctly_rounded_pow
  have s: "findStats 1 test_db = Some test_stats"
    by (simp add: findStats_def test_db_def test_stats_def)
  have p: "findPlayerByPk 1 test_db \<noteq> None"
    by (simp add: findPlayerByPk_def test_db_def test_player_def)
  have e: "fst (applyPenalty ?e 1 7 1000 test_db) = Inr ''stat_decay''"
    using applyPenalty_stat_decay [OF _ _ s p, of 7 ?e 1000] by auto
  then have run: "applyPenalty ?e 1 7 1000 test_db
      = (Inr ''stat_decay'', snd (applyPenalty ?e 1 7 1000 test_db))"
    by (metis prod.collapse)
  have "penalties test_db = []"
    by (simp add: test_db_def)
  then show ?thesis
    using unexpiring_sanctions_stay [OF _ run] e by auto
qed

section \<open>Submission\<close>















section \<open>Daily job\<close>

text \<open>The two flows of the example run, evaluated step by step.\<close>

lemma dbl_20: "dbl 20 = 20"
  using dbl_of_int [of 20] by simp

lemma flow_of_player_1:
  "processPlayerDailyFlow job_env 1 job_db =
     (Inl (StatsNotFound 1),
      job_db\<lparr>taskLogs := [overdue_log\<lparr>status := missed\<rparr>, done_log],
             penalties := [\<lparr>penalty_id = 1, penalty_playerId = 1, reason = missed_task,
                            severity = 1, expiresAt = None, penalty_createdAt = job_clock\<rparr>]\<rparr>)"
  by (simp add: processPlayerDailyFlow_def findPendingTasksNearDeadline_def applyDailyDecay_def
      hasCompletedDailyQuestToday_def startOfDay_def endOfDay_def
      checkAndMarkMissedTasks_def applyMissPenalty_def calculatePSI_def recentMissedTasks_def
      List.map_filter_def DIFFICULTY_MULTIPLIERS_def applyPenalty_def createPenalty_def int32_def
      fresh_id_def
      generateDailyTask_def getWeakestStat_def findStats_def findPlayerByPk_def findTaskByPk_def
      rollback_def commit_def job_env_def
      job_db_def job_clock_def day_ms_def overdue_task_def done_task_def overdue_log_def done_log_def
      test_player_def test_stats_def Let_def)

lemma flow_of_player_2:
  "processPlayerDailyFlow job_env 2
      (job_db\<lparr>taskLogs := [overdue_log\<lparr>status := missed\<rparr>, done_log],
             penalties := [\<lparr>penalty_id = 1, penalty_playerId = 1, reason = missed_task,
                            severity = 1, expiresAt = None, penalty_createdAt = job_clock\<rparr>]\<rparr>) =
     (Inr (),
      job_db\<lparr>tasks := [overdue_task, done_task,
                         \<lparr>task_id = 3, task_type = daily, difficulty = easy,
                          description = ''Complete a 20-minute workout routine'',
                          targetStat = Physical, xpReward = 20, deadline = 6 * day_ms - 1\<rparr>],
             taskLogs := [overdue_log\<lparr>status := missed\<rparr>, done_log,
                          \<lparr>log_id = 3, log_taskId = 3, log_playerId = 2, status = pending,
                           evidence = None, aiVerdict = None, log_createdAt = job_clock\<rparr>],
             penalties := [\<lparr>penalty_id = 1, penalty_playerId = 1, reason = missed_task,
                            severity = 1, expiresAt = None, penalty_createdAt = job_clock\<rparr>]\<rparr>)"
  by (simp add: processPlayerDailyFlow_def findPendingTasksNearDeadline_def applyDailyDecay_def
      hasCompletedDailyQuestToday_def startOfDay_def endOfDay_def
      decay_rounds_back [where st = "test_stats\<lparr>stats_playerId := 2\<rparr>" and playerId = 2]
      valid_stats_def checkAndMarkMissedTasks_def
      generateDailyTask_def getWeakestStat_def getRecentTaskHistory_def countRecentFailures_def
      calculateDifficultyScaling_def generateQuestSuggestion_def getDeterministicQuestFallback_def
      fallbackDescriptions_def dbl_20 round_def int32_def
      TASK_TEMPLATES_daily_xpRange_def calculateXpReward_def createTask_def createTaskLog_def
      fresh_id_def
      findStats_def findPlayerByPk_def findTaskByPk_def
      rollback_def commit_def job_env_def
      job_db_def job_clock_def day_ms_def overdue_task_def done_task_def overdue_log_def done_log_def
      test_player_def test_stats_def Let_def)

text \<open>
  C4 fails on the code.  In the example run the flow of player 1 marks the overdue log
  missed (step 3) and records a warning sanction (step 4) before \<open>generateDailyTask\<close>
  throws "Stats not found" (step 5).  The flow ends with that error and the rollback of
  its empty transaction: the missed status and the sanction stay in the database.  The
  job counts the error and goes on to player 2, whose flow succeeds and adds the next
  task (the fallback quest of the quest generator) with its pending log.
\<close>

theorem daily_flow_failure_keeps_changes:
  "processPlayerDailyFlow job_env 1 job_db =
     (Inl (StatsNotFound 1),
      job_db\<lparr>taskLogs := [overdue_log\<lparr>status := missed\<rparr>, done_log],
             penalties := [\<lparr>penalty_id = 1, penalty_playerId = 1, reason = missed_task,
                            severity = 1, expiresAt = None, penalty_createdAt = job_clock\<rparr>]\<rparr>)
   \<and> snd (processPlayerDailyFlow job_env 1 job_db) \<noteq> job_db
   \<and> runDailyDecayJob job_env job_db =
     ((1, 1),
      job_db\<lparr>tasks := [overdue_task, done_task,
                         \<lparr>task_id = 3, task_type = daily, difficulty = easy,
                          description = ''Complete a 20-minute workout routine'',
                          targetStat = Physical, xpReward = 20, deadline = 6 * day_ms - 1\<rparr>],
             taskLogs := [overdue_log\<lparr>status := missed\<rparr>, done_log,
                          \<lparr>log_id = 3, log_taskId = 3, log_playerId = 2, status = pending,
                           evidence = None, aiVerdict = None, log_createdAt = job_clock\<rparr>],
             penalties := [\<lparr>penalty_id = 1, penalty_playerId = 1, reason = missed_task,
                            severity = 1, expiresAt = None, penalty_createdAt = job_clock\<rparr>]\<rparr>)"
proof -
  have "penalties (snd (processPlayerDailyFlow job_env 1 job_db)) \<noteq> penalties job_db"
    by (subst flow_of_player_1) (simp add: job_db_def)
  then have changed: "snd (processPlayerDailyFlow job_env 1 job_db) \<noteq> job_db"
    by auto
  have ps: "players job_db = [test_player, test_player\<lparr>player_id := 2\<rparr>]"
    by (simp add: job_db_def)
  have "runDailyDecayJob job_env job_db =
     ((1, 1),
      job_db\<lparr>tasks := [overdue_task, done_task,
                         \<lparr>task_id = 3, task_type = daily, difficulty = easy,
                          description = ''Complete a 20-minute workout routine'',
                          targetStat = Physical, xpReward = 20, deadline = 6 * day_ms - 1\<rparr>],
             taskLogs := [overdue_log\<lparr>status := missed\<rparr>, done_log,
                          \<lparr>log_id = 3, log_taskId = 3, log_playerId = 2, status = pending,
                           evidence = None, aiVerdict = None, log_createdAt = job_clock\<rparr>],
             penalties := [\<lparr>penalty_id = 1, penalty_playerId = 1, reason = missed_task,
                            severity = 1, expiresAt = None, penalty_createdAt = job_clock\<rparr>]\<rparr>)"
    unfolding runDailyDecayJob_def ps
    by (simp add: flow_of_player_1 [unfolded One_nat_def] flow_of_player_2 [unfolded One_nat_def]
        test_player_def)
  then show ?thesis
    using flow_of_player_1 changed by simp
qed

end
